theory Spec2Isabelle
  imports Main "HOL-Library.Product_Lexorder"
begin

section \<open>Time and JSON values\<close>

text \<open>
  A naive \<^verbatim>\<open>datetime\<close> is modelled by the number of microseconds since
  0001-01-01T00:00:00, an \<^typ>\<open>int\<close>. The calendar date of \<open>t\<close> is the day number
  \<open>t div DAY\<close>, and \<^verbatim>\<open>replace(hour=h, minute=0, second=0, microsecond=0)\<close> is
  \<open>(t div DAY) * DAY + h * HOUR\<close>. The datetimes there are run from 0 (\<^verbatim>\<open>datetime.min\<close>) to
  \<open>datetime_max\<close>, the days from 0 to \<open>max_date\<close>; adding a \<^verbatim>\<open>timedelta\<close> that leaves the
  range raises OverflowError.
\<close>

type_synonym datetime = int

definition SECOND :: int where "SECOND = 1000000"
definition HOUR :: int where "HOUR = 3600 * SECOND"
definition DAY :: int where "DAY = 24 * HOUR"

definition date_of :: "datetime \<Rightarrow> int" where
  "date_of t = t div DAY"

definition hour_of :: "datetime \<Rightarrow> int" where
  "hour_of t = (t mod DAY) div HOUR"

definition at_hour :: "int \<Rightarrow> int \<Rightarrow> datetime" where
  \<comment> \<open>\<^verbatim>\<open>datetime.combine(date, datetime.min.time().replace(hour=h))\<close>\<close>
  "at_hour d h = d * DAY + h * HOUR"

definition max_date :: int where
  \<comment> \<open>the day number of \<^verbatim>\<open>date.max\<close>, 9999-12-31\<close>
  "max_date = 3652058"

definition datetime_max :: datetime where
  \<comment> \<open>\<^verbatim>\<open>datetime.max\<close> = 9999-12-31T23:59:59.999999 (day number 3652058)\<close>
  "datetime_max = 3652059 * DAY - 1"

definition valid_datetime :: "datetime \<Rightarrow> bool" where
  "valid_datetime t = (0 \<le> t \<and> t \<le> datetime_max)"

datatype error = ZeroDivisionError | IndexError | ValueError | OverflowError

definition plus_timedelta :: "datetime \<Rightarrow> int \<Rightarrow> error + datetime" where
  \<comment> \<open>\<^verbatim>\<open>t + timedelta(microseconds=d)\<close>; a \<^verbatim>\<open>timedelta\<close> too large to build raises the same
     error as a sum out of range\<close>
  "plus_timedelta t d = (if valid_datetime (t + d) then Inr (t + d) else Inl OverflowError)"

definition date_plus_days :: "int \<Rightarrow> int \<Rightarrow> error + int" where
  \<comment> \<open>\<^verbatim>\<open>date + timedelta(days=n)\<close>\<close>
  "date_plus_days d n = (if 0 \<le> d + n \<and> d + n \<le> max_date then Inr (d + n) else Inl OverflowError)"

text \<open>
  The text that \<^verbatim>\<open>isoformat()\<close> writes for a timestamp is kept as the timestamp it
  denotes, wrapped in a type of its own: \<^verbatim>\<open>fromisoformat\<close> inverts \<^verbatim>\<open>isoformat\<close> on
  naive datetimes, and the texts (zero-padded, most significant field first) compare as
  strings the way their timestamps compare as numbers.
\<close>

datatype isotext = Iso (iso_time: datetime)

definition isoformat :: "datetime \<Rightarrow> isotext" where
  "isoformat t = Iso t"

definition fromisoformat :: "isotext \<Rightarrow> datetime" where
  "fromisoformat s = iso_time s"

datatype json = JNull | JInt int | JStr string

type_synonym pydict = "(string \<times> json) list"

definition dict_get :: "pydict \<Rightarrow> string \<Rightarrow> json option" where
  \<comment> \<open>\<^verbatim>\<open>d.get(k)\<close> with a missing key as \<open>None\<close>\<close>
  "dict_get d k = map_of d k"

section \<open>The queued tweet (scheduler.py, dataclass QueuedTweet)\<close>

record queued_tweet =
  qid :: string
  tool_data :: pydict
  tweet_content :: string
  created_at :: datetime
  scheduled_for :: "datetime option"
  priority :: int
  attempts :: int
  max_attempts :: int

section \<open>database.py\<close>

record tool =
  name :: string
  url :: string
  github_url :: "string option"
  description :: string
  category :: string
  stars :: int
  added_date :: datetime
  commit_sha :: "string option"

record tool_row =
  r_name :: string
  r_url :: string
  r_github_url :: "string option"
  r_description :: string
  r_category :: string
  r_stars :: int
  r_added_date :: isotext
  r_commit_sha :: "string option"
  r_first_seen :: isotext

record posted_row =
  p_tweet_id :: string
  p_twitter_id :: "json option"
  p_tool_name :: json
  p_content :: json
  p_posted_at :: isotext
  p_engagement_data :: string

record queued_row =
  q_tweet_id :: string
  q_tool_data :: pydict
  q_content :: string
  q_created_at :: isotext
  q_scheduled_for :: "isotext option"
  q_priority :: int
  q_attempts :: int

record state_row =
  s_key :: string
  s_value :: isotext
  s_updated_at :: isotext

text \<open>
  The store is one of two backends chosen at construction: SQLite tables, or JSON files
  when \<open>use_json_fallback\<close> is set. Each table or file is the list of its rows in
  insertion order. Storage I/O is taken to succeed.
\<close>

record database =
  use_json_fallback :: bool
  tools :: "tool_row list"
  posted_tweets :: "posted_row list"
  queued_tweets :: "queued_row list"
  bot_state :: "state_row list"

definition tool_exists :: "database \<Rightarrow> string \<Rightarrow> string \<Rightarrow> bool" where
  "tool_exists db n u =
     (if use_json_fallback db
      then list_ex (\<lambda>r. r_name r = n \<and> r_url r = u) (tools db)
      else length (filter (\<lambda>r. r_name r = n \<and> r_url r = u) (tools db)) > 0)"

definition tool_data_row :: "datetime \<Rightarrow> tool \<Rightarrow> tool_row" where
  "tool_data_row now t =
     \<lparr> r_name = name t, r_url = url t, r_github_url = github_url t,
       r_description = description t, r_category = category t, r_stars = stars t,
       r_added_date = isoformat (added_date t), r_commit_sha = commit_sha t,
       r_first_seen = isoformat now \<rparr>"

definition add_tool :: "database \<Rightarrow> datetime \<Rightarrow> tool \<Rightarrow> bool \<times> database" where
  \<comment> \<open>JSON: load, append, save. SQLite: \<^verbatim>\<open>INSERT OR IGNORE\<close> under \<^verbatim>\<open>UNIQUE(name, url)\<close>.\<close>
  "add_tool db now t =
     (if use_json_fallback db
      then (True, db\<lparr>tools := tools db @ [tool_data_row now t]\<rparr>)
      else if list_ex (\<lambda>r. r_name r = name t \<and> r_url r = url t) (tools db)
        then (True, db)
        else (True, db\<lparr>tools := tools db @ [tool_data_row now t]\<rparr>))"

definition get_total_tools_count :: "database \<Rightarrow> nat" where
  "get_total_tools_count db = length (tools db)"

definition tracked_items :: "database \<Rightarrow> string \<Rightarrow> string \<Rightarrow> tool_row list" where
  \<comment> \<open>the stored rows for one (name, url) pair\<close>
  "tracked_items db n u = filter (\<lambda>r. r_name r = n \<and> r_url r = u) (tools db)"

definition queued_tweet_row :: "queued_tweet \<Rightarrow> queued_row" where
  "queued_tweet_row qt =
     \<lparr> q_tweet_id = qid qt, q_tool_data = tool_data qt, q_content = tweet_content qt,
       q_created_at = isoformat (created_at qt),
       q_scheduled_for = (case scheduled_for qt of None \<Rightarrow> None | Some t \<Rightarrow> Some (isoformat t)),
       q_priority = priority qt, q_attempts = attempts qt \<rparr>"

definition add_queued_tweet :: "database \<Rightarrow> queued_tweet \<Rightarrow> bool \<times> database" where
  \<comment> \<open>JSON: append. SQLite: \<^verbatim>\<open>INSERT OR REPLACE\<close> under \<^verbatim>\<open>tweet_id UNIQUE\<close>.\<close>
  "add_queued_tweet db qt =
     (if use_json_fallback db
      then (True, db\<lparr>queued_tweets := queued_tweets db @ [queued_tweet_row qt]\<rparr>)
      else (True, db\<lparr>queued_tweets :=
              filter (\<lambda>r. q_tweet_id r \<noteq> qid qt) (queued_tweets db) @ [queued_tweet_row qt]\<rparr>))"

definition get_queued_tweets_count :: "database \<Rightarrow> nat" where
  "get_queued_tweets_count db = length (queued_tweets db)"

definition posted_data :: "datetime \<Rightarrow> string \<Rightarrow> pydict \<Rightarrow> posted_row" where
  "posted_data now tweet_id twitter_result =
     \<lparr> p_tweet_id = tweet_id,
       p_twitter_id = dict_get twitter_result ''id'',
       p_tool_name = (case dict_get twitter_result ''tool_name'' of
                        None \<Rightarrow> JStr ''Unknown'' | Some v \<Rightarrow> v),
       p_content = (case dict_get twitter_result ''text'' of None \<Rightarrow> JStr [] | Some v \<Rightarrow> v),
       p_posted_at = isoformat now,
       p_engagement_data = ''{}'' \<rparr>"

definition mark_tweet_posted ::
  "database \<Rightarrow> datetime \<Rightarrow> string \<Rightarrow> pydict \<Rightarrow> bool \<times> database" where
  \<comment> \<open>SQLite: a plain \<^verbatim>\<open>INSERT\<close>; a second row for the same \<^verbatim>\<open>tweet_id\<close> (UNIQUE) or a
     null \<^verbatim>\<open>content\<close> (NOT NULL) raises, the transaction rolls back and the call
     returns False.\<close>
  "mark_tweet_posted db now tweet_id twitter_result =
     (if use_json_fallback db
      then (True, db\<lparr>posted_tweets := posted_tweets db @ [posted_data now tweet_id twitter_result],
                       queued_tweets := filter (\<lambda>r. q_tweet_id r \<noteq> tweet_id) (queued_tweets db)\<rparr>)
      else if list_ex (\<lambda>r. p_tweet_id r = tweet_id) (posted_tweets db)
              \<or> p_content (posted_data now tweet_id twitter_result) = JNull
        then (False, db)
        else (True, db\<lparr>posted_tweets := posted_tweets db @ [posted_data now tweet_id twitter_result],
                         queued_tweets := filter (\<lambda>r. q_tweet_id r \<noteq> tweet_id) (queued_tweets db)\<rparr>))"

definition mark_tweet_failed :: "database \<Rightarrow> string \<Rightarrow> bool \<times> database" where
  \<comment> \<open>both backends only delete the row of \<^verbatim>\<open>queued_tweets\<close>\<close>
  "mark_tweet_failed db tweet_id =
     (True, db\<lparr>queued_tweets := filter (\<lambda>r. q_tweet_id r \<noteq> tweet_id) (queued_tweets db)\<rparr>)"

definition get_posted_tweets_count :: "database \<Rightarrow> nat" where
  "get_posted_tweets_count db = length (posted_tweets db)"

definition get_state_value :: "database \<Rightarrow> string \<Rightarrow> isotext option" where
  "get_state_value db k =
     (case find (\<lambda>r. s_key r = k) (bot_state db) of
        None \<Rightarrow> None | Some r \<Rightarrow> Some (s_value r))"

fun update_first :: "string \<Rightarrow> isotext \<Rightarrow> isotext \<Rightarrow> state_row list \<Rightarrow> state_row list" where
  \<comment> \<open>the JSON loop: overwrite the first item with the key, append one if there is none\<close>
  "update_first k v u [] = [\<lparr>s_key = k, s_value = v, s_updated_at = u\<rparr>]"
| "update_first k v u (r # rs) =
     (if s_key r = k then r\<lparr>s_value := v, s_updated_at := u\<rparr> # rs
      else r # update_first k v u rs)"

definition set_state_value ::
  "database \<Rightarrow> datetime \<Rightarrow> string \<Rightarrow> isotext \<Rightarrow> bool \<times> database" where
  \<comment> \<open>SQLite: \<^verbatim>\<open>INSERT OR REPLACE\<close> under \<^verbatim>\<open>key PRIMARY KEY\<close>\<close>
  "set_state_value db now k v =
     (if use_json_fallback db
      then (True, db\<lparr>bot_state := update_first k v (isoformat now) (bot_state db)\<rparr>)
      else (True, db\<lparr>bot_state := filter (\<lambda>r. s_key r \<noteq> k) (bot_state db)
                         @ [\<lparr>s_key = k, s_value = v, s_updated_at = isoformat now\<rparr>]\<rparr>))"

definition get_last_check_timestamp :: "database \<Rightarrow> datetime option" where
  "get_last_check_timestamp db =
     (case get_state_value db ''last_check_timestamp'' of
        None \<Rightarrow> None | Some v \<Rightarrow> Some (fromisoformat v))"

definition update_last_check_timestamp :: "database \<Rightarrow> datetime \<Rightarrow> bool \<times> database" where
  "update_last_check_timestamp db now =
     set_state_value db now ''last_check_timestamp'' (isoformat now)"

fun max_posted_at :: "posted_row \<Rightarrow> posted_row list \<Rightarrow> posted_row" where
  \<comment> \<open>\<^verbatim>\<open>max(rows, key=lambda t: t['posted_at'])\<close>: the first row with the greatest key\<close>
  "max_posted_at m [] = m"
| "max_posted_at m (r # rs) =
     max_posted_at (if iso_time (p_posted_at m) < iso_time (p_posted_at r) then r else m) rs"

definition get_last_tweet_time :: "database \<Rightarrow> datetime option" where
  \<comment> \<open>SQLite: \<^verbatim>\<open>ORDER BY posted_at DESC LIMIT 1\<close>\<close>
  "get_last_tweet_time db =
     (if use_json_fallback db
      then (case posted_tweets db of
              [] \<Rightarrow> None
            | r # rs \<Rightarrow> Some (fromisoformat (p_posted_at (max_posted_at r rs))))
      else (case rev (sort_key (\<lambda>r. iso_time (p_posted_at r)) (posted_tweets db)) of
              [] \<Rightarrow> None
            | r # rs \<Rightarrow> Some (fromisoformat (p_posted_at r))))"

definition update_last_tweet_time :: "database \<Rightarrow> datetime \<Rightarrow> bool \<times> database" where
  "update_last_tweet_time db now = set_state_value db now ''last_tweet_time'' (isoformat now)"

definition get_recent_tweet_times :: "database \<Rightarrow> datetime \<Rightarrow> int \<Rightarrow> datetime list" where
  \<comment> \<open>SQLite: \<^verbatim>\<open>WHERE posted_at >= cutoff ORDER BY posted_at\<close>. A cutoff out of range
     raises inside the \<^verbatim>\<open>try\<close> and the call returns the empty list.\<close>
  "get_recent_tweet_times db now days =
     (case plus_timedelta now (- (days * DAY)) of
        Inl e \<Rightarrow> []
      | Inr cutoff \<Rightarrow>
          (let recent_times = filter (\<lambda>t. t \<ge> cutoff)
                                (map (\<lambda>r. fromisoformat (p_posted_at r)) (posted_tweets db))
           in if use_json_fallback db then recent_times else sort recent_times))"

definition get_posted_tweets_since :: "database \<Rightarrow> datetime \<Rightarrow> posted_row list" where
  "get_posted_tweets_since db cutoff_date =
     (let recent_tweets = filter (\<lambda>r. fromisoformat (p_posted_at r) \<ge> cutoff_date)
                            (posted_tweets db)
      in if use_json_fallback db then recent_tweets
         else sort_key (\<lambda>r. iso_time (p_posted_at r)) recent_tweets)"

definition health_check :: "database \<Rightarrow> bool" where
  \<comment> \<open>the files exist, or \<^verbatim>\<open>SELECT 1\<close> runs\<close>
  "health_check db = True"

record statistics =
  storage_type :: string
  total_tools :: nat
  stat_queued_tweets :: nat
  stat_posted_tweets :: nat
  last_check :: "isotext option"
  last_tweet :: "isotext option"

definition get_statistics :: "database \<Rightarrow> statistics" where
  "get_statistics db =
     \<lparr> storage_type = (if use_json_fallback db then ''JSON'' else ''SQLite''),
       total_tools = get_total_tools_count db,
       stat_queued_tweets = get_queued_tweets_count db,
       stat_posted_tweets = get_posted_tweets_count db,
       last_check = (case get_last_check_timestamp db of
                       None \<Rightarrow> None | Some t \<Rightarrow> Some (isoformat t)),
       last_tweet = (case get_last_tweet_time db of
                       None \<Rightarrow> None | Some t \<Rightarrow> Some (isoformat t)) \<rparr>"

section \<open>scheduler.py\<close>

subsection \<open>Rendering \<^verbatim>\<open>str\<close> and \<^verbatim>\<open>strftime('%Y%m%d_%H%M%S')\<close>\<close>

definition digit_char :: "int \<Rightarrow> char" where
  "digit_char d = char_of (48 + d)"

fun zero_pad :: "nat \<Rightarrow> int \<Rightarrow> string" where
  \<comment> \<open>the last \<open>w\<close> decimal digits of \<open>n\<close>, as \<^verbatim>\<open>%0wd\<close> prints a number that fits\<close>
  "zero_pad 0 n = []"
| "zero_pad (Suc w) n = zero_pad w (n div 10) @ [digit_char (n mod 10)]"

fun decimal :: "nat \<Rightarrow> string" where
  "decimal n = (if n < 10 then [digit_char (int n)]
                else decimal (n div 10) @ [digit_char (int (n mod 10))])"

definition py_str :: "json \<Rightarrow> string" where
  "py_str v = (case v of
                 JStr s \<Rightarrow> s
               | JNull \<Rightarrow> ''None''
               | JInt i \<Rightarrow> (if i < 0 then CHR ''-'' # decimal (nat (- i)) else decimal (nat i)))"

definition civil_from_days :: "int \<Rightarrow> int \<times> int \<times> int" where
  \<comment> \<open>(year, month, day) of the proleptic Gregorian date with day number \<open>d\<close>, day 0 being
     0001-01-01; computed over 400-year eras that start on 1 March\<close>
  "civil_from_days d =
     (let z = d + 306;
          era = z div 146097;
          doe = z mod 146097;
          yoe = (doe - doe div 1460 + doe div 36524 - doe div 146096) div 365;
          doy = doe - (365 * yoe + yoe div 4 - yoe div 100);
          mp = (5 * doy + 2) div 153;
          dd = doy - (153 * mp + 2) div 5 + 1;
          mm = (if mp < 10 then mp + 3 else mp - 9);
          yy = yoe + era * 400 + (if mm \<le> 2 then 1 else 0)
      in (yy, mm, dd))"

definition strftime :: "datetime \<Rightarrow> string" where
  \<comment> \<open>\<^verbatim>\<open>strftime('%Y%m%d_%H%M%S')\<close>, for years 1000 to 9999; microseconds are dropped\<close>
  "strftime t =
     (let secs = t div SECOND;
          (yy, mm, dd) = civil_from_days (secs div 86400);
          sod = secs mod 86400
      in zero_pad 4 yy @ zero_pad 2 mm @ zero_pad 2 dd @ ''_''
         @ zero_pad 2 (sod div 3600) @ zero_pad 2 ((sod mod 3600) div 60) @ zero_pad 2 (sod mod 60))"

subsection \<open>The queue file\<close>

record queued_dict =
  d_id :: string
  d_tool_data :: pydict
  d_tweet_content :: string
  d_created_at :: isotext
  d_scheduled_for :: "isotext option"
  d_priority :: "int option"
  d_attempts :: "int option"
  d_max_attempts :: "int option"

definition to_dict :: "queued_tweet \<Rightarrow> queued_dict" where
  "to_dict t =
     \<lparr> d_id = qid t, d_tool_data = tool_data t, d_tweet_content = tweet_content t,
       d_created_at = isoformat (created_at t),
       d_scheduled_for = (case scheduled_for t of None \<Rightarrow> None | Some x \<Rightarrow> Some (isoformat x)),
       d_priority = Some (priority t), d_attempts = Some (attempts t),
       d_max_attempts = Some (max_attempts t) \<rparr>"

definition from_dict :: "queued_dict \<Rightarrow> queued_tweet" where
  "from_dict data =
     \<lparr> qid = d_id data, tool_data = d_tool_data data, tweet_content = d_tweet_content data,
       created_at = fromisoformat (d_created_at data),
       scheduled_for = (case d_scheduled_for data of
                          None \<Rightarrow> None | Some x \<Rightarrow> Some (fromisoformat x)),
       priority = (case d_priority data of None \<Rightarrow> 1 | Some p \<Rightarrow> p),
       attempts = (case d_attempts data of None \<Rightarrow> 0 | Some a \<Rightarrow> a),
       max_attempts = (case d_max_attempts data of None \<Rightarrow> 3 | Some m \<Rightarrow> m) \<rparr>"

datatype queue_file = NoFile | Unreadable | QueueData "queued_dict list"

text \<open>
  The scheduler object together with the persistent state it works on: its attributes, the
  file \<^verbatim>\<open>data/tweet_queue.json\<close> and the database. Every \<^verbatim>\<open>datetime.utcnow()\<close> read
  within one call is the call's argument \<open>now\<close>; the outcome of
  \<^verbatim>\<open>twitter_client.post_tweet\<close> is an argument of \<open>post_next_tweet\<close>. The records that
  \<^verbatim>\<open>post_next_tweet\<close> writes to its logger are returned beside its result; the database and
  the client log on their own.
\<close>

datatype log_level = LogInfo | LogWarning | LogError

datatype log_value = Text string | Number int | Json json | IsoTime isotext

type_synonym log_record = "log_level \<times> string \<times> (string \<times> log_value) list"


record scheduler =
  database :: database
  tweets_per_day :: int
  optimal_hours :: "int list"
  min_interval_hours :: int
  queue_file :: queue_file
  tweet_queue :: "queued_tweet list"

definition load_queue :: "queue_file \<Rightarrow> queued_tweet list" where
  "load_queue f = (case f of
                     NoFile \<Rightarrow> []
                   | Unreadable \<Rightarrow> []
                   | QueueData queue_data \<Rightarrow> map from_dict queue_data)"

definition save_queue :: "scheduler \<Rightarrow> scheduler" where
  "save_queue s = s\<lparr>queue_file := QueueData (map to_dict (tweet_queue s))\<rparr>"

definition TweetScheduler_init ::
  "database \<Rightarrow> queue_file \<Rightarrow> int \<Rightarrow> error + scheduler" where
  "TweetScheduler_init db f tpd =
     (if tpd = 0 then Inl ZeroDivisionError
      else Inr \<lparr> database = db, tweets_per_day = tpd, optimal_hours = [9, 13, 17, 21],
                 min_interval_hours = max (24 div tpd - 1) 2,
                 queue_file = f, tweet_queue = load_queue f \<rparr>)"

subsection \<open>The next slot\<close>

fun optimal_hour_loop :: "int \<Rightarrow> datetime \<Rightarrow> int list \<Rightarrow> error + datetime option" where
  \<comment> \<open>\<^verbatim>\<open>time.replace(hour=h)\<close> raises ValueError outside 0..23\<close>
  "optimal_hour_loop target_date from_time [] = Inr None"
| "optimal_hour_loop target_date from_time (h # hs) =
     (if h < 0 \<or> 23 < h then Inl ValueError
      else if at_hour target_date h > from_time then Inr (Some (at_hour target_date h))
      else optimal_hour_loop target_date from_time hs)"

definition find_next_optimal_hour :: "int list \<Rightarrow> datetime \<Rightarrow> error + datetime" where
  \<comment> \<open>after the loop \<^verbatim>\<open>target_date + timedelta(days=1)\<close> comes first, then
     \<^verbatim>\<open>self.optimal_hours[0]\<close>\<close>
  "find_next_optimal_hour hours from_time =
     (let target_date = date_of from_time
      in case optimal_hour_loop target_date from_time hours of
           Inl e \<Rightarrow> Inl e
         | Inr (Some candidate_time) \<Rightarrow> Inr candidate_time
         | Inr None \<Rightarrow>
             (case date_plus_days target_date 1 of
                Inl e \<Rightarrow> Inl e
              | Inr tomorrow \<Rightarrow>
                  (case hours of
                     [] \<Rightarrow> Inl IndexError
                   | h0 # _ \<Rightarrow> if h0 < 0 \<or> 23 < h0 then Inl ValueError
                               else Inr (at_hour tomorrow h0))))"

definition next_slot_try :: "scheduler \<Rightarrow> datetime \<Rightarrow> datetime list \<Rightarrow> error + datetime" where
  \<comment> \<open>the body of the \<^verbatim>\<open>try\<close> of \<^verbatim>\<open>_calculate_next_slot\<close>, after the recent tweet times
     have been read\<close>
  "next_slot_try s now recent_tweets =
     (let today_tweets = filter (\<lambda>t. date_of t = date_of now) recent_tweets
      in if int (length today_tweets) < tweets_per_day s
         then (case find_next_optimal_hour (optimal_hours s) now of
                 Inl e \<Rightarrow> Inl e
               | Inr next_slot \<Rightarrow>
                   (case recent_tweets of
                      [] \<Rightarrow> Inr next_slot
                    | t # ts \<Rightarrow>
                        (case plus_timedelta (fold max ts t) (min_interval_hours s * HOUR) of
                           Inl e \<Rightarrow> Inl e
                         | Inr min_next_time \<Rightarrow> Inr (max next_slot min_next_time))))
         else (case optimal_hours s of
                 [] \<Rightarrow> Inl IndexError
               | h0 # _ \<Rightarrow> if h0 < 0 \<or> 23 < h0 then Inl ValueError
                           else plus_timedelta (at_hour (date_of now) h0) DAY))"

definition next_slot :: "scheduler \<Rightarrow> datetime \<Rightarrow> datetime list \<Rightarrow> error + datetime" where
  \<comment> \<open>any exception falls back to two hours from now; an overflow of the fallback itself
     leaves the function\<close>
  "next_slot s now recent_tweets =
     (case next_slot_try s now recent_tweets of
        Inl e \<Rightarrow> plus_timedelta now (2 * HOUR)
      | Inr t \<Rightarrow> Inr t)"

definition calculate_next_slot :: "scheduler \<Rightarrow> datetime \<Rightarrow> error + datetime" where
  "calculate_next_slot s now = next_slot s now (get_recent_tweet_times (database s) now 1)"

subsection \<open>Queue operations\<close>

definition queue_key :: "queued_tweet \<Rightarrow> int \<times> datetime \<times> datetime" where
  "queue_key t =
     (- priority t,
      (case scheduled_for t of None \<Rightarrow> datetime_max | Some x \<Rightarrow> x),
      created_at t)"

definition sort_queue :: "queued_tweet list \<Rightarrow> queued_tweet list" where
  \<comment> \<open>\<^verbatim>\<open>list.sort(key=...)\<close> is stable, as \<open>sort_key\<close> is\<close>
  "sort_queue q = sort_key queue_key q"

definition new_tweet_id :: "pydict \<Rightarrow> datetime \<Rightarrow> string" where
  "new_tweet_id td now =
     py_str (case dict_get td ''name'' of None \<Rightarrow> JStr ''tool'' | Some v \<Rightarrow> v)
       @ ''_'' @ strftime now"

definition add_to_queue ::
  "scheduler \<Rightarrow> datetime \<Rightarrow> pydict \<Rightarrow> string \<Rightarrow> int \<Rightarrow> error + string \<times> scheduler" where
  \<comment> \<open>an exception of \<^verbatim>\<open>_calculate_next_slot\<close> is logged and raised again, before the queue
     is touched\<close>
  "add_to_queue s now td content prio =
     (let tweet_id = new_tweet_id td now
      in case calculate_next_slot s now of
           Inl e \<Rightarrow> Inl e
         | Inr scheduled_time \<Rightarrow>
             (let queued = \<lparr> qid = tweet_id, tool_data = td, tweet_content = content,
                             created_at = now, scheduled_for = Some scheduled_time,
                             priority = prio, attempts = 0, max_attempts = 3 \<rparr>;
                  s1 = save_queue (s\<lparr>tweet_queue := sort_queue (tweet_queue s @ [queued])\<rparr>)
              in Inr (tweet_id, s1\<lparr>database := snd (add_queued_tweet (database s1) queued)\<rparr>)))"

definition should_post_tweet :: "scheduler \<Rightarrow> datetime \<Rightarrow> bool" where
  \<comment> \<open>\<^verbatim>\<open>total_seconds()\<close> is compared in microseconds: below the 23-hour bound of the
     interval the float quotient separates whole microseconds\<close>
  "should_post_tweet s now =
     (case tweet_queue s of
        [] \<Rightarrow> False
      | next_tweet # _ \<Rightarrow>
          (case scheduled_for next_tweet of
             Some t \<Rightarrow>
               if t \<le> now then True
               else (case get_last_tweet_time (database s) of
                       None \<Rightarrow> False
                     | Some last_tweet_time \<Rightarrow>
                         now - last_tweet_time > min_interval_hours s * 3600 * SECOND)
           | None \<Rightarrow>
               (case get_last_tweet_time (database s) of
                  None \<Rightarrow> False
                | Some last_tweet_time \<Rightarrow>
                    now - last_tweet_time > min_interval_hours s * 3600 * SECOND)))"

definition truthy :: "pydict option \<Rightarrow> bool" where
  \<comment> \<open>\<^verbatim>\<open>if result:\<close> for \<open>None\<close> or a dict\<close>
  "truthy result = (case result of None \<Rightarrow> False | Some d \<Rightarrow> d \<noteq> [])"

definition post_next_tweet_logged ::
  "scheduler \<Rightarrow> datetime \<Rightarrow> pydict option \<Rightarrow> (bool \<times> scheduler) \<times> log_record list" where
  \<comment> \<open>The retry: \<^verbatim>\<open>datetime.utcnow() + timedelta(hours=1)\<close> out of range raises after
     \<^verbatim>\<open>attempts += 1\<close>; the handler logs the error and returns False, with the queue
     neither sorted nor saved.\<close>
  "post_next_tweet_logged s now result =
     (case tweet_queue s of
        [] \<Rightarrow> ((False, s), [(LogInfo, ''No tweets in queue to post'', [])])
      | next_tweet # rest \<Rightarrow>
          (let attempting = (LogInfo, ''Attempting to post tweet'',
                             [(''tweet_id'', Text (qid next_tweet))])
           in if truthy result
              then (let s1 = save_queue (s\<lparr>tweet_queue := rest\<rparr>);
                        db1 = snd (mark_tweet_posted (database s1) now (qid next_tweet) (the result));
                        db2 = snd (update_last_tweet_time db1 now)
                    in ((True, s1\<lparr>database := db2\<rparr>),
                        [attempting,
                         (LogInfo, ''Tweet posted successfully'',
                          [(''tweet_id'', Text (qid next_tweet)),
                           (''twitter_id'',
                            Json (case dict_get (the result) ''id'' of None \<Rightarrow> JNull | Some v \<Rightarrow> v)),
                           (''tool_name'',
                            Json (case dict_get (tool_data next_tweet) ''name'' of
                                    None \<Rightarrow> JStr ''Unknown'' | Some v \<Rightarrow> v))])]))
              else (let failed = next_tweet\<lparr>attempts := attempts next_tweet + 1\<rparr>
                    in if attempts failed \<ge> max_attempts failed
                       then ((False, save_queue
                               (s\<lparr>tweet_queue := rest,
                                  database := snd (mark_tweet_failed (database s) (qid failed))\<rparr>)),
                             [attempting,
                              (LogWarning, ''Tweet failed after max attempts'',
                               [(''tweet_id'', Text (qid failed)),
                                (''attempts'', Number (attempts failed))])])
                       else (case plus_timedelta now (1 * HOUR) of
                               Inl e \<Rightarrow>
                                 ((False, s\<lparr>tweet_queue := failed # rest\<rparr>),
                                  [attempting,
                                   (LogError, ''Error posting tweet'',
                                    [(''error'', Text ''date value out of range'')])])
                             | Inr later \<Rightarrow>
                                 ((False, save_queue
                                    (s\<lparr>tweet_queue :=
                                         sort_queue (failed\<lparr>scheduled_for := Some later\<rparr> # rest)\<rparr>)),
                                  [attempting,
                                   (LogWarning, ''Tweet attempt failed, rescheduled'',
                                    [(''tweet_id'', Text (qid failed)),
                                     (''attempts'', Number (attempts failed)),
                                     (''rescheduled_for'', IsoTime (isoformat later))])])))))"

definition post_next_tweet ::
  "scheduler \<Rightarrow> datetime \<Rightarrow> pydict option \<Rightarrow> bool \<times> scheduler" where
  "post_next_tweet s now result = fst (post_next_tweet_logged s now result)"

definition clear_queue :: "scheduler \<Rightarrow> bool \<Rightarrow> nat \<times> scheduler" where
  "clear_queue s keep_high_priority =
     (let original_count = length (tweet_queue s);
          kept = (if keep_high_priority then filter (\<lambda>t. priority t > 1) (tweet_queue s) else [])
      in (original_count - length kept, save_queue (s\<lparr>tweet_queue := kept\<rparr>)))"

fun set_scheduled_for :: "string \<Rightarrow> datetime \<Rightarrow> queued_tweet list \<Rightarrow> queued_tweet list option" where
  \<comment> \<open>the loop of \<^verbatim>\<open>reschedule_tweet\<close>: the first tweet with the id gets the new time\<close>
  "set_scheduled_for tweet_id new_time [] = None"
| "set_scheduled_for tweet_id new_time (t # ts) =
     (if qid t = tweet_id then Some (t\<lparr>scheduled_for := Some new_time\<rparr> # ts)
      else (case set_scheduled_for tweet_id new_time ts of
              None \<Rightarrow> None
            | Some ts' \<Rightarrow> Some (t # ts')))"

definition reschedule_tweet :: "scheduler \<Rightarrow> string \<Rightarrow> datetime \<Rightarrow> bool \<times> scheduler" where
  "reschedule_tweet s tweet_id new_time =
     (case set_scheduled_for tweet_id new_time (tweet_queue s) of
        Some q \<Rightarrow> (True, save_queue (s\<lparr>tweet_queue := sort_queue q\<rparr>))
      | None \<Rightarrow> (False, s))"

definition remove_tweet :: "scheduler \<Rightarrow> string \<Rightarrow> bool \<times> scheduler" where
  "remove_tweet s tweet_id =
     (let original_count = length (tweet_queue s);
          s1 = s\<lparr>tweet_queue := filter (\<lambda>t. qid t \<noteq> tweet_id) (tweet_queue s)\<rparr>
      in if length (tweet_queue s1) < original_count then (True, save_queue s1)
         else (False, s1))"

definition update_posting_schedule ::
  "scheduler \<Rightarrow> datetime \<Rightarrow> int \<Rightarrow> int list \<Rightarrow> scheduler" where
  \<comment> \<open>A zero \<^verbatim>\<open>tweets_per_day\<close> raises at the division, after the first two assignments.
     The loop asks for a slot at the first tweet that has a scheduled time; the answer is
     the same at every tweet, so an exception there comes before any tweet is changed. The
     handler logs and returns.\<close>
  "update_posting_schedule s now tpd hours =
     (let s1 = s\<lparr>tweets_per_day := tpd, optimal_hours := hours\<rparr>
      in if tpd = 0 then s1
         else (let s2 = s1\<lparr>min_interval_hours := max (24 div tpd - 1) 2\<rparr>
               in if list_all (\<lambda>t. scheduled_for t = None) (tweet_queue s2)
                  then save_queue (s2\<lparr>tweet_queue := sort_queue (tweet_queue s2)\<rparr>)
                  else (case calculate_next_slot s2 now of
                          Inl e \<Rightarrow> s2
                        | Inr new_time \<Rightarrow>
                            save_queue
                              (s2\<lparr>tweet_queue :=
                                   sort_queue
                                     (map (\<lambda>t. case scheduled_for t of
                                                  None \<Rightarrow> t
                                                | Some _ \<Rightarrow> t\<lparr>scheduled_for := Some new_time\<rparr>)
                                        (tweet_queue s2))\<rparr>))))"

subsection \<open>Runs of the scheduler\<close>

datatype operation =
    AddToQueue datetime pydict string int
  | PostNextTweet datetime "pydict option"
  | ClearQueue bool
  | RescheduleTweet string datetime
  | RemoveTweet string
  | UpdatePostingSchedule datetime int "int list"

definition state_after :: "scheduler \<Rightarrow> error + string \<times> scheduler \<Rightarrow> scheduler" where
  \<comment> \<open>the scheduler after \<open>add_to_queue\<close>: as it was when the call raised\<close>
  "state_after s r = (case r of Inl e \<Rightarrow> s | Inr (tweet_id, s') \<Rightarrow> s')"

definition returned_id :: "error + string \<times> scheduler \<Rightarrow> error + string" where
  "returned_id r = (case r of Inl e \<Rightarrow> Inl e | Inr (tweet_id, s') \<Rightarrow> Inr tweet_id)"

fun step :: "scheduler \<Rightarrow> operation \<Rightarrow> scheduler" where
  "step s (AddToQueue now td content prio) = state_after s (add_to_queue s now td content prio)"
| "step s (PostNextTweet now result) = snd (post_next_tweet s now result)"
| "step s (ClearQueue keep) = snd (clear_queue s keep)"
| "step s (RescheduleTweet tweet_id new_time) = snd (reschedule_tweet s tweet_id new_time)"
| "step s (RemoveTweet tweet_id) = snd (remove_tweet s tweet_id)"
| "step s (UpdatePostingSchedule now tpd hours) = update_posting_schedule s now tpd hours"

definition run :: "scheduler \<Rightarrow> operation list \<Rightarrow> scheduler" where
  "run s ops = foldl step s ops"

definition restart :: "scheduler \<Rightarrow> int \<Rightarrow> error + scheduler" where
  \<comment> \<open>a new process: the object is built again from the database and the queue file the
     old one left, with the configured \<^verbatim>\<open>tweets_per_day\<close>\<close>
  "restart s tpd = TweetScheduler_init (database s) (queue_file s) tpd"

definition mirrored :: "scheduler \<Rightarrow> bool" where
  \<comment> \<open>the queue file holds the in-memory queue\<close>
  "mirrored s = (load_queue (queue_file s) = tweet_queue s)"

fun retry_clock_ok :: "operation \<Rightarrow> bool" where
  \<comment> \<open>a post at a time from which one hour on is still a datetime\<close>
  "retry_clock_ok (PostNextTweet now result) = valid_datetime (now + 1 * HOUR)"
| "retry_clock_ok operation = True"

definition pending :: "queued_tweet list \<Rightarrow> (string \<times> int \<times> datetime option) list" where
  \<comment> \<open>the ids, attempt counts and scheduled times of a queue\<close>
  "pending q = map (\<lambda>t. (qid t, attempts t, scheduled_for t)) q"

definition stored_pending :: "database \<Rightarrow> (string \<times> int \<times> datetime option) list" where
  \<comment> \<open>the same, read from the rows of the table \<^verbatim>\<open>queued_tweets\<close>\<close>
  "stored_pending db =
     map (\<lambda>r. (q_tweet_id r, q_attempts r,
                case q_scheduled_for r of None \<Rightarrow> None | Some x \<Rightarrow> Some (fromisoformat x)))
       (queued_tweets db)"



definition sched_key :: "queued_tweet \<Rightarrow> datetime" where
  \<comment> \<open>\<^verbatim>\<open>t.scheduled_for or datetime.max\<close>\<close>
  "sched_key t = (case scheduled_for t of None \<Rightarrow> datetime_max | Some x \<Rightarrow> x)"

definition queue_order :: "queued_tweet \<Rightarrow> queued_tweet \<Rightarrow> bool" where
  \<comment> \<open>the order of the sort key, component by component\<close>
  "queue_order a b =
     (priority b < priority a
      \<or> (priority a = priority b
          \<and> (sched_key a < sched_key b
              \<or> (sched_key a = sched_key b \<and> created_at a \<le> created_at b))))"

definition scheduled_earlier :: "datetime option \<Rightarrow> datetime option \<Rightarrow> bool" where
  \<comment> \<open>Modelled from the spec: ascending scheduledFor, entries with no scheduledFor last\<close>
  "scheduled_earlier x y =
     (case x of
        None \<Rightarrow> False
      | Some u \<Rightarrow> (case y of None \<Rightarrow> True | Some v \<Rightarrow> u < v))"

definition spec_queue_order :: "queued_tweet \<Rightarrow> queued_tweet \<Rightarrow> bool" where
  \<comment> \<open>Modelled from the spec: descending priority, then ascending scheduledFor with
     entries that have none last, then ascending createdAt\<close>
  "spec_queue_order a b =
     (priority b < priority a
      \<or> (priority a = priority b
          \<and> (scheduled_earlier (scheduled_for a) (scheduled_for b)
              \<or> (scheduled_for a = scheduled_for b \<and> created_at a \<le> created_at b))))"

definition scheduled_before_max :: "queued_tweet list \<Rightarrow> bool" where
  \<comment> \<open>every scheduled time in the queue is earlier than \<^verbatim>\<open>datetime.max\<close>\<close>
  "scheduled_before_max q =
     list_all (\<lambda>t. case scheduled_for t of None \<Rightarrow> True | Some x \<Rightarrow> x < datetime_max) q"

definition before_last_day :: "datetime \<Rightarrow> bool" where
  \<comment> \<open>a datetime earlier than 9999-12-31, the last day there is\<close>
  "before_last_day t = (0 \<le> t \<and> t < max_date * DAY)"

definition hours_in_range :: "int list \<Rightarrow> bool" where
  \<comment> \<open>a non-empty list of hours of the day\<close>
  "hours_in_range hours = (hours \<noteq> [] \<and> list_all (\<lambda>h. 0 \<le> h \<and> h \<le> 23) hours)"

definition valid_hours :: "int list \<Rightarrow> bool" where
  \<comment> \<open>an ordered, non-empty list of hours of the day\<close>
  "valid_hours hours = (hours_in_range hours \<and> sorted hours)"

definition sorted_queue :: "queued_tweet list \<Rightarrow> bool" where
  "sorted_queue q = sorted (map queue_key q)"

section \<open>Example values\<close>

definition empty_database :: "bool \<Rightarrow> database" where
  "empty_database js =
     \<lparr> use_json_fallback = js, tools = [], posted_tweets = [], queued_tweets = [],
       bot_state = [] \<rparr>"

definition example_tool :: tool where
  "example_tool =
     \<lparr> name = ''kubectl'', url = ''https://example.org/kubectl'', github_url = None,
       description = ''cli'', category = ''CLI'', stars = 0, added_date = 0,
       commit_sha = None \<rparr>"

definition default_scheduler :: scheduler where
  "default_scheduler =
     \<lparr> database = empty_database False, tweets_per_day = 4, optimal_hours = [9, 13, 17, 21],
       min_interval_hours = 5, queue_file = NoFile, tweet_queue = [] \<rparr>"

definition daily_scheduler :: scheduler where
  "daily_scheduler =
     \<lparr> database = empty_database False, tweets_per_day = 1, optimal_hours = [9, 13, 17, 21],
       min_interval_hours = 23, queue_file = NoFile, tweet_queue = [] \<rparr>"

definition clock :: "int \<Rightarrow> int \<Rightarrow> int \<Rightarrow> datetime" where
  \<comment> \<open>day number, hour and minute; day 738885 is 2024-01-01\<close>
  "clock d h m = d * DAY + h * HOUR + m * 60 * SECOND"


definition kubectl_data :: pydict where
  "kubectl_data = [(''name'', JStr ''kubectl''), (''url'', JStr ''https://example.org/kubectl'')]"

definition kubectl_fork_data :: pydict where
  "kubectl_fork_data = [(''name'', JStr ''kubectl''), (''url'', JStr ''https://example.org/fork'')]"

definition helm_data :: pydict where
  "helm_data = [(''name'', JStr ''helm''), (''url'', JStr ''https://example.org/helm'')]"

definition example_ops :: "operation list" where
  "example_ops =
     [AddToQueue (clock 738885 12 0) kubectl_data ''kubectl is out'' 1,
      AddToQueue (clock 738885 12 1) helm_data ''helm is out'' 3,
      PostNextTweet (clock 738885 13 0) None,
      RescheduleTweet ''kubectl_20240101_120000'' (clock 738885 15 0),
      RemoveTweet ''nothing'']"

definition posted_result :: pydict where
  \<comment> \<open>what \<^verbatim>\<open>post_tweet\<close> returns for a tweet that went out\<close>
  "posted_result = [(''id'', JStr ''1001''), (''url'', JStr ''https://twitter.com/kubetools/status/1001''),
                    (''text'', JStr ''kubectl is out'')]"

definition collision_ops :: "operation list" where
  \<comment> \<open>two tools named kubectl queued within one second, both posted, then helm queued\<close>
  "collision_ops =
     [AddToQueue (clock 738885 12 0) kubectl_data ''kubectl is out'' 1,
      AddToQueue (clock 738885 12 0 + 500000) kubectl_fork_data ''a kubectl fork'' 1,
      PostNextTweet (clock 738885 13 0) (Some posted_result),
      PostNextTweet (clock 738885 13 20) (Some posted_result),
      AddToQueue (clock 738885 17 30) helm_data ''helm is out'' 1]"

definition last_evening :: datetime where
  \<comment> \<open>9999-12-31T21:30\<close>
  "last_evening = clock 3652058 21 30"


definition two_queued :: scheduler where
  \<comment> \<open>two tweets queued at noon: helm (priority 3) ahead of kubectl (priority 1)\<close>
  "two_queued = run default_scheduler (take 2 example_ops)"


section \<open>Properties of the store\<close>

lemma add_tool_sqlite_twice:
  assumes "\<not> use_json_fallback db"
  shows "snd (add_tool (snd (add_tool db now1 t)) now2 t) = snd (add_tool db now1 t)"
  using assms by (simp add: add_tool_def list_ex_iff tool_data_row_def)

lemma add_tool_sqlite_one_item:
  assumes "\<not> use_json_fallback db" and "length (tracked_items db (name t) (url t)) \<le> 1"
  shows "length (tracked_items (snd (add_tool (snd (add_tool db now1 t)) now2 t))
           (name t) (url t)) = 1"
proof (cases "list_ex (\<lambda>r. r_name r = name t \<and> r_url r = url t) (tools db)")
  case True
  then have "filter (\<lambda>r. r_name r = name t \<and> r_url r = url t) (tools db) \<noteq> []"
    unfolding list_ex_iff filter_empty_conv by blast
  then have "length (tracked_items db (name t) (url t)) \<noteq> 0"
    unfolding tracked_items_def by simp
  with assms(2) have one: "length (tracked_items db (name t) (url t)) = 1" by linarith
  from True assms(1) have "snd (add_tool (snd (add_tool db now1 t)) now2 t) = db"
    unfolding add_tool_def by simp
  with one show ?thesis by simp
next
  case False
  then have none: "filter (\<lambda>r. r_name r = name t \<and> r_url r = url t) (tools db) = []"
    unfolding list_ex_iff filter_empty_conv by blast
  from False assms(1) have
    "tools (snd (add_tool (snd (add_tool db now1 t)) now2 t)) = tools db @ [tool_data_row now1 t]"
    unfolding add_tool_def by (simp add: tool_data_row_def)
  then show ?thesis
    unfolding tracked_items_def using none by (simp add: tool_data_row_def)
qed

text \<open>
  C1 (fails on the JSON backend). Recording the same tool twice in an empty JSON-fallback
  store leaves two rows for its (name, url) pair: the fallback branch of \<open>add_tool\<close>
  appends without looking, where the SQLite branch ignores the second insert.
\<close>

theorem add_tool_json_twice_two_items:
  "length (tracked_items
     (snd (add_tool (snd (add_tool (empty_database True) 0 example_tool)) 1 example_tool))
     (name example_tool) (url example_tool)) = 2"
  by (simp add: add_tool_def tracked_items_def empty_database_def example_tool_def
      tool_data_row_def)

section \<open>Properties of the next slot\<close>

lemma DAY_pos: "0 < DAY" by (simp add: DAY_def HOUR_def SECOND_def)
lemma HOUR_pos: "0 < HOUR" by (simp add: HOUR_def SECOND_def)

lemma day_start_le: "date_of t * DAY \<le> t"
proof -
  have "t = (t div DAY) * DAY + t mod DAY" by simp
  moreover have "0 \<le> t mod DAY" using DAY_pos by simp
  ultimately show ?thesis unfolding date_of_def by linarith
qed

lemma before_next_day: "t < (date_of t + 1) * DAY"
proof -
  have "t = (t div DAY) * DAY + t mod DAY" by simp
  moreover have "t mod DAY < DAY" using DAY_pos by simp
  ultimately have "t < (t div DAY) * DAY + DAY" by linarith
  then show ?thesis unfolding date_of_def by (simp add: algebra_simps)
qed

lemma before_tomorrow_hour:
  assumes "0 \<le> h"
  shows "t < at_hour (date_of t + 1) h"
proof -
  have "0 \<le> h * HOUR" using assms HOUR_pos by simp
  with before_next_day [of t] show ?thesis unfolding at_hour_def by linarith
qed

lemma hour_of_at_hour:
  assumes "0 \<le> h" and "h \<le> 23"
  shows "hour_of (at_hour d h) = h"
proof -
  have lt: "h * HOUR < DAY" using assms HOUR_pos unfolding DAY_def by simp
  have ge: "0 \<le> h * HOUR" using assms HOUR_pos by simp
  have "(d * DAY + h * HOUR) mod DAY = h * HOUR"
    using lt ge by simp
  then show ?thesis unfolding hour_of_def at_hour_def using HOUR_pos by simp
qed

lemma before_last_day_date:
  assumes "before_last_day t"
  shows "0 \<le> date_of t" and "date_of t < max_date"
proof -
  from assms have t: "0 \<le> t" "t < max_date * DAY" unfolding before_last_day_def by simp_all
  from t(1) show "0 \<le> date_of t" unfolding date_of_def using DAY_pos
    by (simp add: pos_imp_zdiv_nonneg_iff)
  show "date_of t < max_date"
  proof (rule ccontr)
    assume "\<not> date_of t < max_date"
    then have "max_date * DAY \<le> date_of t * DAY" using DAY_pos by (simp add: mult_right_mono)
    with day_start_le [of t] t(2) show False by linarith
  qed
qed


lemma optimal_hour_loop_valid:
  assumes "list_all (\<lambda>h. 0 \<le> h \<and> h \<le> 23) hours"
  shows "optimal_hour_loop d f hours =
           Inr (case filter (\<lambda>h. f < at_hour d h) hours of
                  [] \<Rightarrow> None | h # _ \<Rightarrow> Some (at_hour d h))"
  using assms by (induction hours) auto

lemma find_next_optimal_hour_valid:
  assumes "hours_in_range hours" and "before_last_day now"
  shows "find_next_optimal_hour hours now =
           Inr (case filter (\<lambda>h. now < at_hour (date_of now) h) hours of
                  [] \<Rightarrow> at_hour (date_of now + 1) (hd hours)
                | h # _ \<Rightarrow> at_hour (date_of now) h)"
proof -
  from assms(1) obtain h0 hs where hs: "hours = h0 # hs"
    unfolding hours_in_range_def by (cases hours) auto
  from assms(1) have all: "list_all (\<lambda>h. 0 \<le> h \<and> h \<le> 23) hours"
    unfolding hours_in_range_def by simp
  with hs have h0: "0 \<le> h0" "h0 \<le> 23" by auto
  from before_last_day_date [OF assms(2)]
  have tomorrow: "date_plus_days (date_of now) 1 = Inr (date_of now + 1)"
    unfolding date_plus_days_def by simp
  show ?thesis
    unfolding find_next_optimal_hour_def Let_def optimal_hour_loop_valid [OF all] tomorrow
    using h0 by (simp add: hs split: list.split)
qed

lemma sorted_hd_Min:
  assumes "sorted (x # xs)"
  shows "Min (set (x # xs)) = (x::int)"
  using assms by (intro Min_eqI) auto

lemma find_next_optimal_hour_cases:
  assumes "valid_hours hours" and "before_last_day now"
  shows "find_next_optimal_hour hours now =
           Inr (let today = filter (\<lambda>h. now < at_hour (date_of now) h) hours
                in if today = [] then at_hour (date_of now + 1) (hd hours)
                   else at_hour (date_of now) (Min (set today)))"
proof -
  let ?today = "filter (\<lambda>h. now < at_hour (date_of now) h) hours"
  from assms(1) have rng: "hours_in_range hours" and "sorted hours"
    unfolding valid_hours_def by simp_all
  then have srt: "sorted ?today" using sorted_filter [of "\<lambda>h. h" hours] by simp
  show ?thesis
  proof (cases ?today)
    case Nil
    then show ?thesis unfolding find_next_optimal_hour_valid [OF rng assms(2)] by simp
  next
    case (Cons h hs)
    with srt have "Min (set ?today) = h" using sorted_hd_Min by metis
    with Cons show ?thesis unfolding find_next_optimal_hour_valid [OF rng assms(2)] by simp
  qed
qed

lemma TweetScheduler_init_default:
  "TweetScheduler_init (empty_database False) NoFile 4 = Inr default_scheduler"
  by (simp add: TweetScheduler_init_def default_scheduler_def load_queue_def)

lemma TweetScheduler_init_daily:
  "TweetScheduler_init (empty_database False) NoFile 1 = Inr daily_scheduler"
  by (simp add: TweetScheduler_init_def daily_scheduler_def load_queue_def)

lemma TweetScheduler_init_min_interval:
  assumes "TweetScheduler_init db f tpd = Inr s"
  shows "min_interval_hours s = max (24 div tweets_per_day s - 1) 2"
  using assms by (auto simp: TweetScheduler_init_def split: if_splits)


lemma next_slot_empty:
  assumes "valid_hours (optimal_hours s)" and "before_last_day now" and "1 \<le> tweets_per_day s"
  shows "next_slot s now [] =
           Inr (let today = filter (\<lambda>h. now < at_hour (date_of now) h) (optimal_hours s)
                in if today = [] then at_hour (date_of now + 1) (hd (optimal_hours s))
                   else at_hour (date_of now) (Min (set today)))"
  using assms(3)
  unfolding next_slot_def next_slot_try_def find_next_optimal_hour_cases [OF assms(1,2)]
  by (simp add: Let_def)



text \<open>
  On the last day there is, once its preferred hours are over, the next day cannot be
  formed and the slot is the fallback of two hours from now.
\<close>

lemma next_slot_last_evening:
  "valid_datetime last_evening
   \<and> next_slot default_scheduler last_evening [] = Inr (last_evening + 2 * HOUR)
   \<and> hour_of (last_evening + 2 * HOUR) = 23"
  by code_simp

text \<open>
  C7. With no recent send times, a daily quota of at least one, an ordered list of
  preferred hours and \<open>now\<close> earlier than the last day of the calendar, the next slot is
  today's earliest preferred hour strictly after \<open>now\<close>, or the first preferred hour of the
  next day when none is left today; its hour is one of the preferred hours and it lies
  strictly after \<open>now\<close>.
\<close>

theorem next_slot_no_recent:
  assumes "1 \<le> tweets_per_day s" and "valid_hours (optimal_hours s)" and "before_last_day now"
  shows "next_slot s now [] =
           Inr (let today = filter (\<lambda>h. now < at_hour (date_of now) h) (optimal_hours s)
                in if today = [] then at_hour (date_of now + 1) (hd (optimal_hours s))
                   else at_hour (date_of now) (Min (set today)))
         \<and> (\<exists>slot. next_slot s now [] = Inr slot
                  \<and> hour_of slot \<in> set (optimal_hours s) \<and> now < slot)"
proof -
  let ?hours = "optimal_hours s"
  let ?today = "filter (\<lambda>h. now < at_hour (date_of now) h) ?hours"
  let ?slot = "if ?today = [] then at_hour (date_of now + 1) (hd ?hours)
               else at_hour (date_of now) (Min (set ?today))"
  have eq: "next_slot s now [] = Inr ?slot"
    using next_slot_empty [OF assms(2,3,1)] by (simp add: Let_def)
  from assms(2) have ne: "?hours \<noteq> []" and rng: "\<forall>h\<in>set ?hours. 0 \<le> h \<and> h \<le> 23"
    unfolding valid_hours_def hours_in_range_def by (simp_all add: list_all_iff)
  have "hour_of ?slot \<in> set ?hours \<and> now < ?slot"
  proof (cases "?today = []")
    case True
    from ne have mem: "hd ?hours \<in> set ?hours" by simp
    with rng have "0 \<le> hd ?hours" "hd ?hours \<le> 23" by auto
    with True mem show ?thesis
      by (simp add: hour_of_at_hour before_tomorrow_hour)
  next
    case False
    have "set ?today \<noteq> {}" unfolding set_empty by (rule False)
    then have "Min (set ?today) \<in> set ?today" by (intro Min_in finite_set)
    then have mem: "Min (set ?today) \<in> set ?hours"
      and late: "now < at_hour (date_of now) (Min (set ?today))" by auto
    from mem rng have "0 \<le> Min (set ?today)" "Min (set ?today) \<le> 23" by auto
    with False mem late show ?thesis
      by (simp add: hour_of_at_hour)
  qed
  with eq show ?thesis by (simp add: Let_def)
qed

theorem next_slot_no_recent_witness:
  "1 \<le> tweets_per_day default_scheduler \<and> valid_hours (optimal_hours default_scheduler)
   \<and> before_last_day (clock 738885 8 0)
   \<and> next_slot default_scheduler (clock 738885 8 0) [] = Inr (clock 738885 9 0)
   \<and> hour_of (clock 738885 9 0) \<in> {9, 13, 17, 21}
   \<and> clock 738885 8 0 < clock 738885 9 0"
proof -
  have a: "1 \<le> tweets_per_day default_scheduler" by (simp add: default_scheduler_def)
  have b: "valid_hours (optimal_hours default_scheduler)"
    by (simp add: default_scheduler_def valid_hours_def hours_in_range_def)
  have r: "before_last_day (clock 738885 8 0)" by code_simp
  have c: "set (optimal_hours default_scheduler) = {9, 13, 17, 21}"
    by (simp add: default_scheduler_def)
  have d: "next_slot default_scheduler (clock 738885 8 0) [] = Inr (clock 738885 9 0)"
    by code_simp
  from next_slot_no_recent [OF a b r]
  obtain slot where "next_slot default_scheduler (clock 738885 8 0) [] = Inr slot"
    and "hour_of slot \<in> set (optimal_hours default_scheduler)" and "clock 738885 8 0 < slot"
    by blast
  with d have "hour_of (clock 738885 9 0) \<in> set (optimal_hours default_scheduler)"
    and "clock 738885 8 0 < clock 738885 9 0" by simp_all
  then have "hour_of (clock 738885 9 0) \<in> {9, 13, 17, 21}"
    and "clock 738885 8 0 < clock 738885 9 0" unfolding c by simp_all
  with a b r d show ?thesis by blast
qed




section \<open>Properties of the queue\<close>

lemma queue_key_le: "queue_key a \<le> queue_key b \<longleftrightarrow> queue_order a b"
  unfolding queue_key_def queue_order_def sched_key_def less_eq_prod_def less_prod_def
  by auto

lemma sorted_queue_order: "sorted_queue q \<longleftrightarrow> sorted_wrt queue_order q"
  unfolding sorted_queue_def sorted_map by (simp add: queue_key_le)

lemma sorted_sort_queue: "sorted_queue (sort_queue q)"
  unfolding sorted_queue_def sort_queue_def by (rule sorted_sort_key)

lemma sorted_queue_filter: "sorted_queue q \<Longrightarrow> sorted_queue (filter P q)"
  unfolding sorted_queue_def by (rule sorted_filter)

lemma sorted_queue_tail: "sorted_queue (t # q) \<Longrightarrow> sorted_queue q"
  unfolding sorted_queue_def by simp

lemma filter_not_shorter:
  assumes "\<not> length (filter P xs) < length xs"
  shows "filter P xs = xs"
proof -
  have "\<forall>x\<in>set xs. P x"
  proof (rule ccontr)
    assume "\<not> (\<forall>x\<in>set xs. P x)"
    then obtain x where "x \<in> set xs" "\<not> P x" by blast
    then have "length (filter P xs) < length xs" by (rule length_filter_less)
    with assms show False by contradiction
  qed
  then show ?thesis by (simp add: filter_id_conv)
qed

lemma from_dict_to_dict: "from_dict (to_dict t) = t"
  by (cases t) (simp add: from_dict_def to_dict_def isoformat_def fromisoformat_def
      split: option.split)

lemma load_queue_saved: "load_queue (QueueData (map to_dict q)) = q"
  by (simp add: load_queue_def from_dict_to_dict map_idI)

lemma mirrored_save_queue: "mirrored (save_queue s)"
  by (simp add: mirrored_def save_queue_def load_queue_saved)

lemma mirrored_database: "mirrored (s\<lparr>database := d\<rparr>) = mirrored s"
  by (simp add: mirrored_def)

lemma tweet_queue_save_queue: "tweet_queue (save_queue s) = tweet_queue s"
  by (simp add: save_queue_def)

lemma queue_key_attempts: "queue_key (t\<lparr>attempts := a\<rparr>) = queue_key t"
  by (simp add: queue_key_def)

lemma order_agree:
  assumes "case scheduled_for a of None \<Rightarrow> True | Some x \<Rightarrow> x < datetime_max"
    and "case scheduled_for b of None \<Rightarrow> True | Some x \<Rightarrow> x < datetime_max"
  shows "queue_order a b \<longleftrightarrow> spec_queue_order a b"
  using assms
  unfolding queue_order_def spec_queue_order_def sched_key_def scheduled_earlier_def
  by (auto split: option.splits)

lemma sorted_spec_order:
  assumes "scheduled_before_max q"
  shows "sorted_wrt spec_queue_order q \<longleftrightarrow> sorted_queue q"
proof -
  from assms have each:
    "\<And>t. t \<in> set q \<Longrightarrow> (case scheduled_for t of None \<Rightarrow> True | Some x \<Rightarrow> x < datetime_max)"
    unfolding scheduled_before_max_def list_all_iff by blast
  have "sorted_wrt spec_queue_order q \<longleftrightarrow> sorted_wrt queue_order q"
  proof
    assume "sorted_wrt spec_queue_order q"
    then show "sorted_wrt queue_order q"
      by (rule sorted_wrt_mono_rel [rotated]) (simp add: order_agree each)
  next
    assume "sorted_wrt queue_order q"
    then show "sorted_wrt spec_queue_order q"
      by (rule sorted_wrt_mono_rel [rotated]) (simp add: order_agree each)
  qed
  then show ?thesis unfolding sorted_queue_order .
qed

subsection \<open>The branches of \<open>post_next_tweet\<close>\<close>

lemma post_next_tweet_success:
  assumes "tweet_queue s = next_tweet # rest" and "truthy result"
  shows "post_next_tweet s now result =
           (True, (save_queue (s\<lparr>tweet_queue := rest\<rparr>))
                    \<lparr>database := snd (update_last_tweet_time
                       (snd (mark_tweet_posted (database s) now (qid next_tweet) (the result)))
                       now)\<rparr>)"
  using assms
  by (simp add: post_next_tweet_def post_next_tweet_logged_def Let_def save_queue_def)

lemma post_next_tweet_drop:
  assumes "tweet_queue s = next_tweet # rest" and "\<not> truthy result"
    and "max_attempts next_tweet \<le> attempts next_tweet + 1"
  shows "post_next_tweet s now result =
           (False, save_queue
              (s\<lparr>tweet_queue := rest,
                 database := snd (mark_tweet_failed (database s) (qid next_tweet))\<rparr>))"
  using assms by (simp add: post_next_tweet_def post_next_tweet_logged_def Let_def)

lemma post_next_tweet_retry:
  assumes "tweet_queue s = next_tweet # rest" and "\<not> truthy result"
    and "attempts next_tweet + 1 < max_attempts next_tweet"
    and "valid_datetime (now + HOUR)"
  shows "post_next_tweet s now result =
           (False, save_queue
              (s\<lparr>tweet_queue :=
                   sort_queue (next_tweet\<lparr>attempts := attempts next_tweet + 1,
                                            scheduled_for := Some (now + HOUR)\<rparr> # rest)\<rparr>))"
  using assms
  by (simp add: post_next_tweet_def post_next_tweet_logged_def Let_def plus_timedelta_def)

lemma post_next_tweet_overflow:
  assumes "tweet_queue s = next_tweet # rest" and "\<not> truthy result"
    and "attempts next_tweet + 1 < max_attempts next_tweet"
    and "\<not> valid_datetime (now + HOUR)"
  shows "post_next_tweet s now result =
           (False, s\<lparr>tweet_queue := next_tweet\<lparr>attempts := attempts next_tweet + 1\<rparr> # rest\<rparr>)"
  using assms
  by (simp add: post_next_tweet_def post_next_tweet_logged_def Let_def plus_timedelta_def)

lemma post_next_tweet_empty:
  assumes "tweet_queue s = []"
  shows "post_next_tweet s now result = (False, s)"
  using assms by (simp add: post_next_tweet_def post_next_tweet_logged_def)

subsection \<open>The queue file and the order of the queue\<close>

lemma add_to_queue_result:
  assumes "add_to_queue s now td content prio = Inr (tweet_id, s1)"
  shows "\<exists>slot. calculate_next_slot s now = Inr slot
           \<and> tweet_id = new_tweet_id td now
           \<and> tweet_queue s1 = sort_queue (tweet_queue s @
                 [\<lparr> qid = new_tweet_id td now, tool_data = td, tweet_content = content,
                    created_at = now, scheduled_for = Some slot,
                    priority = prio, attempts = 0, max_attempts = 3 \<rparr>])
           \<and> queue_file s1 = QueueData (map to_dict (tweet_queue s1))"
  using assms unfolding add_to_queue_def Let_def
  by (auto simp: save_queue_def split: sum.splits)

lemma add_to_queue_raise:
  assumes "add_to_queue s now td content prio = Inl e"
  shows "state_after s (add_to_queue s now td content prio) = s"
  using assms by (simp add: state_after_def)

lemma add_to_queue_mirrored:
  assumes "mirrored s"
  shows "mirrored (state_after s (add_to_queue s now td content prio))"
proof (cases "add_to_queue s now td content prio")
  case (Inl e)
  with assms show ?thesis by (simp add: state_after_def)
next
  case (Inr r)
  obtain tweet_id s1 where r: "r = (tweet_id, s1)" by (cases r)
  from add_to_queue_result [OF Inr [unfolded r]]
  have "queue_file s1 = QueueData (map to_dict (tweet_queue s1))" by blast
  then have "mirrored s1" by (simp add: mirrored_def load_queue_saved)
  with Inr r show ?thesis by (simp add: state_after_def)
qed

lemma add_to_queue_sorted:
  assumes "add_to_queue s now td content prio = Inr (tweet_id, s1)"
  shows "sorted_queue (tweet_queue s1)"
  using add_to_queue_result [OF assms] sorted_sort_queue by auto

lemma add_to_queue_keeps_sorted:
  assumes "sorted_queue (tweet_queue s)"
  shows "sorted_queue (tweet_queue (state_after s (add_to_queue s now td content prio)))"
proof (cases "add_to_queue s now td content prio")
  case (Inl e)
  with assms show ?thesis by (simp add: state_after_def)
next
  case (Inr r)
  obtain tweet_id s1 where r: "r = (tweet_id, s1)" by (cases r)
  from add_to_queue_sorted [OF Inr [unfolded r]] Inr r show ?thesis
    by (simp add: state_after_def)
qed

lemma post_next_tweet_mirrored:
  assumes "mirrored s" and "valid_datetime (now + HOUR)"
  shows "mirrored (snd (post_next_tweet s now result))"
proof (cases "tweet_queue s")
  case Nil
  with assms(1) show ?thesis by (simp add: post_next_tweet_empty)
next
  case (Cons t rest)
  show ?thesis
  proof (cases "truthy result")
    case True
    with Cons show ?thesis
      by (simp add: post_next_tweet_success mirrored_database mirrored_save_queue)
  next
    case False
    show ?thesis
    proof (cases "max_attempts t \<le> attempts t + 1")
      case True
      with Cons \<open>\<not> truthy result\<close> show ?thesis
        by (simp add: post_next_tweet_drop mirrored_save_queue)
    next
      case False
      then have "attempts t + 1 < max_attempts t" by simp
      with Cons \<open>\<not> truthy result\<close> assms(2) show ?thesis
        by (simp add: post_next_tweet_retry mirrored_save_queue)
    qed
  qed
qed

lemma post_next_tweet_sorted:
  assumes "sorted_queue (tweet_queue s)"
  shows "sorted_queue (tweet_queue (snd (post_next_tweet s now result)))"
proof (cases "tweet_queue s")
  case Nil
  with assms show ?thesis by (simp add: post_next_tweet_empty)
next
  case (Cons t rest)
  with assms have tail: "sorted_queue rest" using sorted_queue_tail by simp
  show ?thesis
  proof (cases "truthy result")
    case True
    with Cons tail show ?thesis
      by (simp add: post_next_tweet_success tweet_queue_save_queue)
  next
    case False
    show ?thesis
    proof (cases "max_attempts t \<le> attempts t + 1")
      case True
      with Cons \<open>\<not> truthy result\<close> tail show ?thesis
        by (simp add: post_next_tweet_drop tweet_queue_save_queue)
    next
      case False
      then have few: "attempts t + 1 < max_attempts t" by simp
      show ?thesis
      proof (cases "valid_datetime (now + HOUR)")
        case True
        with Cons \<open>\<not> truthy result\<close> few show ?thesis
          by (simp add: post_next_tweet_retry tweet_queue_save_queue sorted_sort_queue)
      next
        case False
        from assms Cons have "sorted_queue (t\<lparr>attempts := attempts t + 1\<rparr> # rest)"
          unfolding sorted_queue_def by (simp add: queue_key_attempts)
        with Cons \<open>\<not> truthy result\<close> few False show ?thesis
          by (simp add: post_next_tweet_overflow)
      qed
    qed
  qed
qed

lemma clear_queue_mirrored: "mirrored (snd (clear_queue s keep))"
  unfolding clear_queue_def Let_def by (simp add: mirrored_save_queue)

lemma clear_queue_sorted:
  assumes "sorted_queue (tweet_queue s)"
  shows "sorted_queue (tweet_queue (snd (clear_queue s keep)))"
  using assms unfolding clear_queue_def Let_def
  by (simp add: tweet_queue_save_queue sorted_queue_filter) (simp add: sorted_queue_def)

lemma reschedule_tweet_mirrored:
  assumes "mirrored s"
  shows "mirrored (snd (reschedule_tweet s tweet_id new_time))"
  using assms unfolding reschedule_tweet_def
  by (simp add: mirrored_save_queue split: option.split)

lemma reschedule_tweet_found_sorted:
  assumes "fst (reschedule_tweet s tweet_id new_time)"
  shows "sorted_queue (tweet_queue (snd (reschedule_tweet s tweet_id new_time)))"
  using assms unfolding reschedule_tweet_def
  by (simp add: tweet_queue_save_queue sorted_sort_queue split: option.splits)

lemma reschedule_tweet_not_found:
  assumes "\<not> fst (reschedule_tweet s tweet_id new_time)"
  shows "snd (reschedule_tweet s tweet_id new_time) = s"
  using assms unfolding reschedule_tweet_def by (simp split: option.splits)

lemma reschedule_tweet_sorted:
  assumes "sorted_queue (tweet_queue s)"
  shows "sorted_queue (tweet_queue (snd (reschedule_tweet s tweet_id new_time)))"
  using assms unfolding reschedule_tweet_def
  by (simp add: tweet_queue_save_queue sorted_sort_queue split: option.splits)

lemma remove_tweet_queue:
  "tweet_queue (snd (remove_tweet s tweet_id)) = filter (\<lambda>t. qid t \<noteq> tweet_id) (tweet_queue s)"
  unfolding remove_tweet_def Let_def by (simp add: tweet_queue_save_queue)

lemma remove_tweet_mirrored:
  assumes "mirrored s"
  shows "mirrored (snd (remove_tweet s tweet_id))"
proof (cases "length (filter (\<lambda>t. qid t \<noteq> tweet_id) (tweet_queue s)) < length (tweet_queue s)")
  case True
  then show ?thesis unfolding remove_tweet_def Let_def by (simp add: mirrored_save_queue)
next
  case False
  then have "filter (\<lambda>t. qid t \<noteq> tweet_id) (tweet_queue s) = tweet_queue s"
    by (rule filter_not_shorter)
  with False assms show ?thesis unfolding remove_tweet_def Let_def by (simp add: mirrored_def)
qed

lemma remove_tweet_sorted:
  assumes "sorted_queue (tweet_queue s)"
  shows "sorted_queue (tweet_queue (snd (remove_tweet s tweet_id)))"
  using assms unfolding remove_tweet_queue by (rule sorted_queue_filter)

lemma update_posting_schedule_mirrored:
  assumes "mirrored s"
  shows "mirrored (update_posting_schedule s now tpd hours)"
proof -
  have keep: "\<And>s'. queue_file s' = queue_file s \<Longrightarrow> tweet_queue s' = tweet_queue s \<Longrightarrow> mirrored s'"
    using assms by (simp add: mirrored_def)
  show ?thesis
    unfolding update_posting_schedule_def Let_def
    by (simp add: mirrored_save_queue keep split: sum.split)
qed

lemma update_posting_schedule_sorted:
  assumes "sorted_queue (tweet_queue s)"
  shows "sorted_queue (tweet_queue (update_posting_schedule s now tpd hours))"
  using assms unfolding update_posting_schedule_def Let_def
  by (auto simp: tweet_queue_save_queue sorted_sort_queue split: sum.split)

lemma step_mirrored:
  assumes "mirrored s" and "retry_clock_ok operation"
  shows "mirrored (step s operation)"
  using assms
  by (cases operation)
     (simp_all add: add_to_queue_mirrored post_next_tweet_mirrored clear_queue_mirrored
        reschedule_tweet_mirrored remove_tweet_mirrored update_posting_schedule_mirrored)

lemma step_sorted:
  assumes "sorted_queue (tweet_queue s)"
  shows "sorted_queue (tweet_queue (step s operation))"
  using assms
  by (cases operation)
     (simp_all add: add_to_queue_keeps_sorted post_next_tweet_sorted clear_queue_sorted
        reschedule_tweet_sorted remove_tweet_sorted update_posting_schedule_sorted)

lemma run_mirrored:
  assumes "mirrored s" and "list_all retry_clock_ok ops"
  shows "mirrored (run s ops)"
  using assms unfolding run_def
  by (induction ops arbitrary: s) (simp_all add: step_mirrored)

lemma run_sorted:
  assumes "sorted_queue (tweet_queue s)"
  shows "sorted_queue (tweet_queue (run s ops))"
  using assms unfolding run_def
  by (induction ops arbitrary: s) (simp_all add: step_sorted)

lemma TweetScheduler_init_mirrored:
  assumes "TweetScheduler_init db f tpd = Inr s"
  shows "mirrored s"
  using assms by (auto simp: TweetScheduler_init_def mirrored_def split: if_splits)

lemma reschedule_tweet_database: "database (snd (reschedule_tweet s tweet_id new_time)) = database s"
  unfolding reschedule_tweet_def by (simp add: save_queue_def split: option.split)

lemma remove_tweet_database: "database (snd (remove_tweet s tweet_id)) = database s"
  unfolding remove_tweet_def Let_def by (simp add: save_queue_def)

lemma clear_queue_database: "database (snd (clear_queue s keep)) = database s"
  unfolding clear_queue_def Let_def by (simp add: save_queue_def)

text \<open>
  C3 as stated fails: the database, which is the state store, is not written on every
  change of the queue. After the example run (two tweets queued, a failed post,
  a reschedule) the queue holds helm with one attempt, scheduled for 14:00, and kubectl
  scheduled for 15:00, while the table \<^verbatim>\<open>queued_tweets\<close> still holds the two rows as they
  were written when the tweets were queued.
\<close>

theorem queued_tweets_table_counterexample:
  "pending (tweet_queue (run default_scheduler example_ops))
     = [(''helm_20240101_120100'', 1, Some (clock 738885 14 0)),
        (''kubectl_20240101_120000'', 0, Some (clock 738885 15 0))]
   \<and> stored_pending (database (run default_scheduler example_ops))
     = [(''kubectl_20240101_120000'', 0, Some (clock 738885 13 0)),
        (''helm_20240101_120100'', 0, Some (clock 738885 13 0))]
   \<and> set (stored_pending (database (run default_scheduler example_ops)))
       \<noteq> set (pending (tweet_queue (run default_scheduler example_ops)))"
  by code_simp

text \<open>
  C3 (as amended). Every operation that changes the in-memory queue writes it to the queue
  file \<^verbatim>\<open>data/tweet_queue.json\<close> before it returns. So after any sequence of operations
  whose posts come at times from which one hour on is still a datetime, a new process,
  which rebuilds its queue from that file, holds the same queue: the same ids, attempt
  counts and scheduled times. The database is not such a mirror: \<open>reschedule_tweet\<close>,
  \<open>remove_tweet\<close> and \<open>clear_queue\<close> leave it as it was.
\<close>

theorem restart_reconstructs_queue:
  assumes "TweetScheduler_init db f tpd = Inr s0" and "tpd' \<noteq> 0"
    and "list_all retry_clock_ok ops"
  shows "(\<exists>s1. restart (run s0 ops) tpd' = Inr s1
            \<and> tweet_queue s1 = tweet_queue (run s0 ops)
            \<and> pending (tweet_queue s1) = pending (tweet_queue (run s0 ops)))
       \<and> database (snd (reschedule_tweet s tweet_id new_time)) = database s
       \<and> database (snd (remove_tweet s tweet_id)) = database s
       \<and> database (snd (clear_queue s keep)) = database s"
proof -
  from assms(1) have "mirrored s0" by (rule TweetScheduler_init_mirrored)
  then have "mirrored (run s0 ops)" using assms(3) by (rule run_mirrored)
  then have "load_queue (queue_file (run s0 ops)) = tweet_queue (run s0 ops)"
    unfolding mirrored_def .
  with assms(2) have "\<exists>s1. restart (run s0 ops) tpd' = Inr s1
            \<and> tweet_queue s1 = tweet_queue (run s0 ops)
            \<and> pending (tweet_queue s1) = pending (tweet_queue (run s0 ops))"
    unfolding restart_def TweetScheduler_init_def by simp
  then show ?thesis
    using reschedule_tweet_database remove_tweet_database clear_queue_database by blast
qed

theorem restart_reconstructs_queue_witness:
  "TweetScheduler_init (empty_database False) NoFile 4 = Inr default_scheduler \<and> (4::int) \<noteq> 0
   \<and> list_all retry_clock_ok example_ops
   \<and> (\<exists>s1. restart (run default_scheduler example_ops) 4 = Inr s1
          \<and> tweet_queue s1 = tweet_queue (run default_scheduler example_ops)
          \<and> pending (tweet_queue s1)
              = [(''helm_20240101_120100'', 1, Some (clock 738885 14 0)),
                 (''kubectl_20240101_120000'', 0, Some (clock 738885 15 0))])"
proof -
  have e: "pending (tweet_queue (run default_scheduler example_ops))
           = [(''helm_20240101_120100'', 1, Some (clock 738885 14 0)),
              (''kubectl_20240101_120000'', 0, Some (clock 738885 15 0))]"
    by code_simp
  have n: "(4::int) \<noteq> 0" by simp
  have c: "list_all retry_clock_ok example_ops" by code_simp
  from restart_reconstructs_queue [OF TweetScheduler_init_default n c]
  obtain s1 where "restart (run default_scheduler example_ops) 4 = Inr s1"
    and "tweet_queue s1 = tweet_queue (run default_scheduler example_ops)" by blast
  with e TweetScheduler_init_default n c show ?thesis by auto
qed

text \<open>
  The sort key counts a missing scheduled time as \<^verbatim>\<open>datetime.max\<close>, so a tweet scheduled
  for that very instant ties with the tweets that have no scheduled time and the creation
  time decides between them.
\<close>

lemma unscheduled_ties_with_max:
  assumes "priority a = priority b" and "scheduled_for a = None"
    and "scheduled_for b = Some datetime_max" and "created_at a \<le> created_at b"
  shows "sorted_queue [a, b] \<and> \<not> sorted_wrt spec_queue_order [a, b]"
  using assms
  by (simp add: sorted_queue_def queue_key_def spec_queue_order_def scheduled_earlier_def)

text \<open>
  C4. The order is descending priority, then ascending scheduled time with the tweets that
  have none last, then ascending creation time. While every scheduled time in the queue is
  earlier than \<^verbatim>\<open>datetime.max\<close>, the queue is in this order after every \<open>add_to_queue\<close>
  that returns and every successful \<open>reschedule_tweet\<close>; an unsuccessful
  \<open>reschedule_tweet\<close> changes nothing, \<open>remove_tweet\<close> keeps the order of an ordered queue,
  and so does every run of operations.
\<close>

theorem queue_stays_sorted:
  "(add_to_queue s now td content prio = Inr (new_id, s1) \<and> scheduled_before_max (tweet_queue s1)
      \<longrightarrow> sorted_wrt spec_queue_order (tweet_queue s1))
   \<and> (fst (reschedule_tweet s tweet_id new_time)
        \<and> scheduled_before_max (tweet_queue (snd (reschedule_tweet s tweet_id new_time)))
      \<longrightarrow> sorted_wrt spec_queue_order (tweet_queue (snd (reschedule_tweet s tweet_id new_time))))
   \<and> (\<not> fst (reschedule_tweet s tweet_id new_time)
      \<longrightarrow> snd (reschedule_tweet s tweet_id new_time) = s)
   \<and> (sorted_wrt spec_queue_order (tweet_queue s)
      \<longrightarrow> sorted_wrt spec_queue_order (tweet_queue (snd (remove_tweet s tweet_id))))
   \<and> (sorted_wrt spec_queue_order (tweet_queue s) \<and> scheduled_before_max (tweet_queue s)
        \<and> scheduled_before_max (tweet_queue (run s ops))
      \<longrightarrow> sorted_wrt spec_queue_order (tweet_queue (run s ops)))"
proof (intro conjI impI)
  assume "add_to_queue s now td content prio = Inr (new_id, s1)
            \<and> scheduled_before_max (tweet_queue s1)"
  then show "sorted_wrt spec_queue_order (tweet_queue s1)"
    using add_to_queue_sorted sorted_spec_order by blast
next
  assume "fst (reschedule_tweet s tweet_id new_time)
            \<and> scheduled_before_max (tweet_queue (snd (reschedule_tweet s tweet_id new_time)))"
  then show "sorted_wrt spec_queue_order (tweet_queue (snd (reschedule_tweet s tweet_id new_time)))"
    using reschedule_tweet_found_sorted sorted_spec_order by blast
next
  assume "\<not> fst (reschedule_tweet s tweet_id new_time)"
  then show "snd (reschedule_tweet s tweet_id new_time) = s"
    by (rule reschedule_tweet_not_found)
next
  assume "sorted_wrt spec_queue_order (tweet_queue s)"
  then show "sorted_wrt spec_queue_order (tweet_queue (snd (remove_tweet s tweet_id)))"
    unfolding remove_tweet_queue by (rule sorted_wrt_filter)
next
  assume a: "sorted_wrt spec_queue_order (tweet_queue s) \<and> scheduled_before_max (tweet_queue s)
               \<and> scheduled_before_max (tweet_queue (run s ops))"
  then have "sorted_queue (tweet_queue s)" using sorted_spec_order by blast
  then have "sorted_queue (tweet_queue (run s ops))" by (rule run_sorted)
  with a show "sorted_wrt spec_queue_order (tweet_queue (run s ops))"
    using sorted_spec_order by blast
qed

theorem queue_stays_sorted_witness:
  "add_to_queue two_queued (clock 738885 12 2) kubectl_data ''again'' 2
     = Inr (''kubectl_20240101_120200'',
            state_after two_queued
              (add_to_queue two_queued (clock 738885 12 2) kubectl_data ''again'' 2))
   \<and> scheduled_before_max (tweet_queue (state_after two_queued
        (add_to_queue two_queued (clock 738885 12 2) kubectl_data ''again'' 2)))
   \<and> sorted_wrt spec_queue_order (tweet_queue (state_after two_queued
        (add_to_queue two_queued (clock 738885 12 2) kubectl_data ''again'' 2)))
   \<and> fst (reschedule_tweet two_queued ''kubectl_20240101_120000'' (clock 738885 15 0))
   \<and> scheduled_before_max
        (tweet_queue (snd (reschedule_tweet two_queued ''kubectl_20240101_120000'' (clock 738885 15 0))))
   \<and> sorted_wrt spec_queue_order
        (tweet_queue (snd (reschedule_tweet two_queued ''kubectl_20240101_120000'' (clock 738885 15 0))))
   \<and> sorted_wrt spec_queue_order (tweet_queue two_queued)
   \<and> scheduled_before_max (tweet_queue two_queued)
   \<and> sorted_wrt spec_queue_order (tweet_queue (snd (remove_tweet two_queued ''helm_20240101_120100'')))
   \<and> map qid (tweet_queue (snd (remove_tweet two_queued ''helm_20240101_120100'')))
       = [''kubectl_20240101_120000'']
   \<and> scheduled_before_max (tweet_queue (run two_queued (drop 2 example_ops)))
   \<and> sorted_wrt spec_queue_order (tweet_queue (run two_queued (drop 2 example_ops)))"
proof -
  let ?added = "state_after two_queued
                  (add_to_queue two_queued (clock 738885 12 2) kubectl_data ''again'' 2)"
  let ?moved = "snd (reschedule_tweet two_queued ''kubectl_20240101_120000'' (clock 738885 15 0))"
  have a1: "add_to_queue two_queued (clock 738885 12 2) kubectl_data ''again'' 2
              = Inr (''kubectl_20240101_120200'', ?added)" by code_simp
  have a2: "scheduled_before_max (tweet_queue ?added)" by code_simp
  have b1: "fst (reschedule_tweet two_queued ''kubectl_20240101_120000'' (clock 738885 15 0))"
    by code_simp
  have b2: "scheduled_before_max (tweet_queue ?moved)" by code_simp
  have c1: "sorted_wrt spec_queue_order (tweet_queue two_queued)" by code_simp
  have c2: "scheduled_before_max (tweet_queue two_queued)" by code_simp
  have c3: "scheduled_before_max (tweet_queue (run two_queued (drop 2 example_ops)))"
    by code_simp
  have d: "map qid (tweet_queue (snd (remove_tweet two_queued ''helm_20240101_120100'')))
       = [''kubectl_20240101_120000'']" by code_simp
  note inst = queue_stays_sorted [of two_queued "clock 738885 12 2" kubectl_data "''again''" 2
      "''kubectl_20240101_120200''" ?added "''kubectl_20240101_120000''" "clock 738885 15 0"
      "drop 2 example_ops"]
  from inst a1 a2 have e1: "sorted_wrt spec_queue_order (tweet_queue ?added)" by blast
  from inst b1 b2 have e2: "sorted_wrt spec_queue_order (tweet_queue ?moved)" by blast
  from inst c1 c2 c3
  have e3: "sorted_wrt spec_queue_order (tweet_queue (run two_queued (drop 2 example_ops)))"
    by blast
  from queue_stays_sorted [of two_queued "clock 738885 12 2" kubectl_data "''again''" 2
      "''kubectl_20240101_120200''" ?added "''helm_20240101_120100''" "clock 738885 15 0" "[]"] c1
  have e4: "sorted_wrt spec_queue_order
              (tweet_queue (snd (remove_tweet two_queued ''helm_20240101_120100'')))"
    by blast
  from a1 a2 e1 b1 b2 e2 c1 c2 e4 d c3 e3 show ?thesis by blast
qed

section \<open>Properties of posting\<close>

text \<open>
  C9. On an empty queue \<open>post_next_tweet\<close> returns False and changes nothing: the queue, the
  queue file and the database, with its posted history and its last-tweet scalar, are as
  before.
\<close>

theorem post_next_tweet_empty_queue:
  assumes "tweet_queue s = []"
  shows "post_next_tweet s now result = (False, s)"
  using assms by (simp add: post_next_tweet_def post_next_tweet_logged_def)

theorem post_next_tweet_empty_queue_witness:
  "tweet_queue default_scheduler = []
   \<and> post_next_tweet default_scheduler (clock 738885 9 0) (Some [(''id'', JStr ''1'')])
       = (False, default_scheduler)"
proof -
  have e: "tweet_queue default_scheduler = []" by (simp add: default_scheduler_def)
  from post_next_tweet_empty_queue [OF e] e show ?thesis by blast
qed

subsection \<open>Which tweets a queue can hold after a run\<close>

















section \<open>Tweet ids\<close>

lemma new_tweet_id_same_second:
  assumes "t1 div SECOND = t2 div SECOND" and "dict_get td1 ''name'' = dict_get td2 ''name''"
  shows "new_tweet_id td1 t1 = new_tweet_id td2 t2"
  using assms by (simp add: new_tweet_id_def strftime_def)

text \<open>
  C8 (fails). The id is the tool name followed by the time of the call to the second.
  Two calls of \<open>add_to_queue\<close> half a second apart for two tools that share the name
  \<^verbatim>\<open>kubectl\<close> return the same id, and both tweets sit in the queue under it.
\<close>

theorem add_to_queue_same_second_same_id:
  "returned_id (add_to_queue default_scheduler (clock 738885 12 0) kubectl_data ''kubectl is out'' 1)
     = Inr ''kubectl_20240101_120000''
   \<and> returned_id (add_to_queue
            (state_after default_scheduler
               (add_to_queue default_scheduler (clock 738885 12 0) kubectl_data ''kubectl is out'' 1))
            (clock 738885 12 0 + 500000) kubectl_fork_data ''a kubectl fork'' 1)
     = Inr ''kubectl_20240101_120000''
   \<and> map qid (tweet_queue (state_after
            (state_after default_scheduler
               (add_to_queue default_scheduler (clock 738885 12 0) kubectl_data ''kubectl is out'' 1))
            (add_to_queue
               (state_after default_scheduler
                  (add_to_queue default_scheduler (clock 738885 12 0) kubectl_data ''kubectl is out'' 1))
               (clock 738885 12 0 + 500000) kubectl_fork_data ''a kubectl fork'' 1)))
     = [''kubectl_20240101_120000'', ''kubectl_20240101_120000'']"
  by code_simp

section \<open>The due check\<close>

lemma should_post_tweet_iff:
  "should_post_tweet s now \<longleftrightarrow>
     tweet_queue s \<noteq> []
     \<and> ((\<exists>t. scheduled_for (hd (tweet_queue s)) = Some t \<and> t \<le> now)
        \<or> (\<exists>last. get_last_tweet_time (database s) = Some last
               \<and> min_interval_hours s * HOUR < now - last))"
  unfolding should_post_tweet_def HOUR_def
  by (auto split: list.splits option.splits)

text \<open>
  C6 (fails on the SQLite backend). The due check measures the time since the greatest
  \<^verbatim>\<open>posted_at\<close> in the table \<^verbatim>\<open>posted_tweets\<close>, and on SQLite a post enters that table only
  under an id that is not there yet. Two tools named kubectl are queued within one second
  and get the same id; the first is posted at 13:00, the second at 13:20, and
  \<open>post_next_tweet\<close> returns True both times, but the second row is refused. With helm
  queued for 21:00, at 18:05 the head is not due and the last successful post is 4 hours
  45 minutes old, less than the interval of 5 hours, yet \<open>should_post_tweet\<close> is true. On
  the JSON backend, which appends the second row, it is false.
\<close>

theorem should_post_tweet_after_collision:
  "fst (post_next_tweet (run default_scheduler (take 2 collision_ops))
          (clock 738885 13 0) (Some posted_result))
   \<and> fst (post_next_tweet (run default_scheduler (take 3 collision_ops))
          (clock 738885 13 20) (Some posted_result))
   \<and> pending (tweet_queue (run default_scheduler collision_ops))
       = [(''helm_20240101_173000'', 0, Some (clock 738885 21 0))]
   \<and> get_last_tweet_time (database (run default_scheduler collision_ops))
       = Some (clock 738885 13 0)
   \<and> min_interval_hours (run default_scheduler collision_ops) = 5
   \<and> clock 738885 18 5 - clock 738885 13 20 < 5 * HOUR
   \<and> should_post_tweet (run default_scheduler collision_ops) (clock 738885 18 5)
   \<and> \<not> should_post_tweet
         (run (default_scheduler\<lparr>database := empty_database True\<rparr>) collision_ops)
         (clock 738885 18 5)"
  by code_simp

section \<open>The last tweet time\<close>

lemma next_slot_database: "next_slot (s\<lparr>database := db\<rparr>) now recent = next_slot s now recent"
  by (simp add: next_slot_def next_slot_try_def split: sum.split list.split)

lemma max_posted_at_fold:
  "iso_time (p_posted_at (max_posted_at m rs))
     = fold max (map (\<lambda>r. iso_time (p_posted_at r)) rs) (iso_time (p_posted_at m))"
  by (induction rs arbitrary: m) (simp_all add: max_def)

lemma max_posted_at_Max:
  "iso_time (p_posted_at (max_posted_at m rs))
     = Max (set (map (\<lambda>r. iso_time (p_posted_at r)) (m # rs)))"
  unfolding max_posted_at_fold by (simp only: list.map Max.set_eq_fold)

lemma sorted_le_last:
  assumes "sorted zs" and "y \<in> set zs"
  shows "y \<le> last (zs::int list)"
  using assms by (induction zs) auto

lemma last_sort_key_Max:
  assumes "xs \<noteq> []"
  shows "f (last (sort_key f xs)) = Max (set (map f xs :: int list))"
proof -
  let ?ys = "sort_key f xs"
  from assms have ne: "?ys \<noteq> []" by (metis length_sort length_0_conv)
  have srt: "sorted (map f ?ys)" by (rule sorted_sort_key)
  have "Max (set (map f ?ys)) = f (last ?ys)"
  proof (rule Max_eqI)
    show "finite (set (map f ?ys))" by (rule finite_set)
    have "last ?ys \<in> set ?ys" using ne by (rule last_in_set)
    then have "f (last ?ys) \<in> f ` set ?ys" by (rule imageI)
    then show "f (last ?ys) \<in> set (map f ?ys)" by (simp only: set_map)
    fix y assume "y \<in> set (map f ?ys)"
    with srt have "y \<le> last (map f ?ys)" by (rule sorted_le_last)
    then show "y \<le> f (last ?ys)" using ne by (simp add: last_map)
  qed
  then show ?thesis by simp
qed

lemma get_last_tweet_time_Max:
  "get_last_tweet_time db =
     (if posted_tweets db = [] then None
      else Some (Max (set (map (\<lambda>r. fromisoformat (p_posted_at r)) (posted_tweets db)))))"
proof (cases "posted_tweets db")
  case Nil
  then show ?thesis by (simp add: get_last_tweet_time_def)
next
  case (Cons r rs)
  let ?f = "\<lambda>r. iso_time (p_posted_at r)"
  let ?ys = "sort_key ?f (posted_tweets db)"
  from Cons have ne: "?ys \<noteq> []" by (metis length_sort length_0_conv list.discI)
  then obtain z zs where rv: "rev ?ys = z # zs" by (cases "rev ?ys") auto
  then have "z = last ?ys" using ne by (metis list.sel(1) hd_rev)
  then have "?f z = Max (set (map ?f (posted_tweets db)))"
    using last_sort_key_Max [of "posted_tweets db" ?f] Cons by simp
  with rv Cons show ?thesis
    using max_posted_at_Max [of r rs]
    by (simp add: get_last_tweet_time_def fromisoformat_def)
qed

lemma find_update_first_other:
  assumes "k' \<noteq> k"
  shows "find (\<lambda>r. s_key r = k') (update_first k v u rs) = find (\<lambda>r. s_key r = k') rs"
  using assms by (induction rs) auto

lemma find_replace_other:
  assumes "k' \<noteq> k"
  shows "find (\<lambda>r. s_key r = k')
           (filter (\<lambda>r. s_key r \<noteq> k) rs @ [\<lparr>s_key = k, s_value = v, s_updated_at = u\<rparr>])
         = find (\<lambda>r. s_key r = k') rs"
  using assms by (induction rs) auto

lemma get_state_value_other:
  assumes "k' \<noteq> k"
  shows "get_state_value (snd (set_state_value db now k v)) k' = get_state_value db k'"
  using assms
  by (simp add: get_state_value_def set_state_value_def find_update_first_other
      find_replace_other)

lemma set_state_value_tables:
  "use_json_fallback (snd (set_state_value db now k v)) = use_json_fallback db"
  "tools (snd (set_state_value db now k v)) = tools db"
  "posted_tweets (snd (set_state_value db now k v)) = posted_tweets db"
  "queued_tweets (snd (set_state_value db now k v)) = queued_tweets db"
  by (simp_all add: set_state_value_def)

lemma get_last_check_timestamp_update_last_tweet_time:
  "get_last_check_timestamp (snd (update_last_tweet_time db now)) = get_last_check_timestamp db"
  unfolding get_last_check_timestamp_def update_last_tweet_time_def
  by (simp add: get_state_value_other)

lemma get_last_tweet_time_tables:
  assumes "use_json_fallback db' = use_json_fallback db" and "posted_tweets db' = posted_tweets db"
  shows "get_last_tweet_time db' = get_last_tweet_time db"
  using assms by (simp add: get_last_tweet_time_def)

text \<open>
  C10. \<open>get_last_tweet_time\<close> is the greatest \<^verbatim>\<open>posted_at\<close> of the posted tweets, or None
  when there are none. It does not depend on the scalar table, and writing the
  \<^verbatim>\<open>last_tweet_time\<close> scalar with \<open>update_last_tweet_time\<close> changes the result of no read
  operation of the store, nor the scheduler's due check and next slot, which read the
  store through them.
\<close>

theorem last_tweet_time_scalar_unread:
  "get_last_tweet_time db =
     (if posted_tweets db = [] then None
      else Some (Max (set (map (\<lambda>r. fromisoformat (p_posted_at r)) (posted_tweets db)))))
   \<and> get_last_tweet_time (db\<lparr>bot_state := bs\<rparr>) = get_last_tweet_time db
   \<and> get_last_tweet_time (snd (update_last_tweet_time db now)) = get_last_tweet_time db
   \<and> get_last_check_timestamp (snd (update_last_tweet_time db now)) = get_last_check_timestamp db
   \<and> tool_exists (snd (update_last_tweet_time db now)) n u = tool_exists db n u
   \<and> get_total_tools_count (snd (update_last_tweet_time db now)) = get_total_tools_count db
   \<and> get_queued_tweets_count (snd (update_last_tweet_time db now)) = get_queued_tweets_count db
   \<and> get_posted_tweets_count (snd (update_last_tweet_time db now)) = get_posted_tweets_count db
   \<and> get_recent_tweet_times (snd (update_last_tweet_time db now)) t days
       = get_recent_tweet_times db t days
   \<and> get_posted_tweets_since (snd (update_last_tweet_time db now)) cutoff
       = get_posted_tweets_since db cutoff
   \<and> health_check (snd (update_last_tweet_time db now)) = health_check db
   \<and> get_statistics (snd (update_last_tweet_time db now)) = get_statistics db
   \<and> should_post_tweet (s\<lparr>database := snd (update_last_tweet_time db now)\<rparr>) t
       = should_post_tweet (s\<lparr>database := db\<rparr>) t
   \<and> calculate_next_slot (s\<lparr>database := snd (update_last_tweet_time db now)\<rparr>) t
       = calculate_next_slot (s\<lparr>database := db\<rparr>) t"
proof -
  let ?db = "snd (update_last_tweet_time db now)"
  note tables = set_state_value_tables [of db now "''last_tweet_time''" "isoformat now",
      folded update_last_tweet_time_def]
  have last: "get_last_tweet_time ?db = get_last_tweet_time db"
    by (rule get_last_tweet_time_tables) (simp_all add: tables)
  have chk: "get_last_check_timestamp ?db = get_last_check_timestamp db"
    by (rule get_last_check_timestamp_update_last_tweet_time)
  have "get_last_tweet_time (db\<lparr>bot_state := bs\<rparr>) = get_last_tweet_time db"
    by (rule get_last_tweet_time_tables) simp_all
  moreover have "tool_exists ?db n u = tool_exists db n u"
    by (simp add: tool_exists_def tables)
  moreover have "get_total_tools_count ?db = get_total_tools_count db"
    by (simp add: get_total_tools_count_def tables)
  moreover have "get_queued_tweets_count ?db = get_queued_tweets_count db"
    by (simp add: get_queued_tweets_count_def tables)
  moreover have "get_posted_tweets_count ?db = get_posted_tweets_count db"
    by (simp add: get_posted_tweets_count_def tables)
  moreover have "get_recent_tweet_times ?db t days = get_recent_tweet_times db t days"
    by (simp add: get_recent_tweet_times_def tables split: sum.split)
  moreover have "get_posted_tweets_since ?db cutoff = get_posted_tweets_since db cutoff"
    by (simp add: get_posted_tweets_since_def tables)
  moreover have "health_check ?db = health_check db"
    by (simp add: health_check_def)
  moreover have "should_post_tweet (s\<lparr>database := ?db\<rparr>) t
                   = should_post_tweet (s\<lparr>database := db\<rparr>) t"
    by (simp add: should_post_tweet_def last split: list.split option.split)
  moreover have "calculate_next_slot (s\<lparr>database := ?db\<rparr>) t
                   = calculate_next_slot (s\<lparr>database := db\<rparr>) t"
    by (simp add: calculate_next_slot_def next_slot_database get_recent_tweet_times_def tables
        split: sum.split)
  moreover have "get_statistics ?db = get_statistics db"
    by (simp add: get_statistics_def get_total_tools_count_def get_queued_tweets_count_def
        get_posted_tweets_count_def tables last chk)
  ultimately show ?thesis
    using get_last_tweet_time_Max [of db] last chk by blast
qed



end
